theory Spec2Isabelle
  imports Complex_Main
begin

section \<open>The water-box notebook: data model\<close>

text \<open>
  The notebook \<^verbatim>\<open>2_water_simulation.ipynb\<close> is a flat sequence of calls into OpenMM,
  MDAnalysis, nglview and matplotlib. Its own code is the order of the calls, the
  arguments it passes and the one \<^verbatim>\<open>try/except\<close>. The embedding keeps these as they
  are written. What a library call computes (file parsing, the dynamics, distances) is
  not decided by the notebook: it is a field of the record \<open>world\<close> below, so every
  theorem holds for any behaviour of the libraries. Exceptions are values of the sum type
  \<open>error + 'a\<close>; the mutable simulation objects are passed explicitly. Coordinates are of
  an arbitrary type \<open>'v\<close> (a \<^verbatim>\<open>Vec3\<close> with units in the source). The calls to
  \<^verbatim>\<open>time.time\<close> and \<^verbatim>\<open>print\<close> (timings) are left out.
\<close>

datatype error = OpenMMException string | PythonException string

datatype platform = Platform string

record atom =
  element :: string
  resindex :: nat
  segindex :: nat
  chainID :: string

record prmtop =
  prm_topology :: "atom list"

record 'v inpcrd =
  crd_positions :: "'v list"
  crd_boxVectors :: "('v \<times> 'v \<times> 'v) option"

datatype nonbonded_method = NoCutoff | CutoffNonPeriodic | CutoffPeriodic | Ewald | PME

datatype constraint_kind = HBonds | AllBonds | HAngles

text \<open>A force of a system: the terms created from the parameter file, or the barostat
  (pressure in atmospheres, temperature in kelvin).\<close>

datatype force = ForceFieldTerm string | MonteCarloBarostat nat nat

record system =
  numParticles :: nat
  forces :: "force list"

text \<open>\<^verbatim>\<open>LangevinIntegrator(temperature, frictionCoeff, stepSize)\<close>: kelvin, 1/ps, fs.\<close>

datatype integrator = LangevinIntegrator nat nat nat

text \<open>The dynamic state held by an OpenMM context.\<close>

record 'v state =
  st_positions :: "'v list"
  st_velocities :: "'v list"
  st_box :: "'v \<times> 'v \<times> 'v"

text \<open>The keyword flags of \<^verbatim>\<open>app.StateDataReporter\<close>; each defaults to \<^verbatim>\<open>False\<close>.\<close>

record sdr_flags =
  f_step :: bool
  f_time :: bool
  f_potentialEnergy :: bool
  f_kineticEnergy :: bool
  f_totalEnergy :: bool
  f_temperature :: bool
  f_volume :: bool
  f_density :: bool
  f_progress :: bool
  f_remainingTime :: bool
  f_speed :: bool
  f_elapsedTime :: bool

definition sdr_defaults :: sdr_flags where
  "sdr_defaults = \<lparr>f_step = False, f_time = False, f_potentialEnergy = False,
     f_kineticEnergy = False, f_totalEnergy = False, f_temperature = False,
     f_volume = False, f_density = False, f_progress = False, f_remainingTime = False,
     f_speed = False, f_elapsedTime = False\<rparr>"

datatype reporter_kind = DCDReporter | StateDataReporter sdr_flags

text \<open>A reporter with the records it has written so far: the step number and the
  state it saw at each report.\<close>

record 'v reporter =
  rep_kind :: reporter_kind
  rep_file :: string
  reportInterval :: nat
  rep_written :: "(nat \<times> 'v state) list"

text \<open>\<^verbatim>\<open>app.Simulation\<close>: the topology, system and integrator it was built from, the
  optional \<^verbatim>\<open>platform\<close> and \<^verbatim>\<open>platformProperties\<close> arguments (\<^verbatim>\<open>None\<close> when not
  passed), its context, its reporters and its step counter.\<close>

record 'v simulation =
  sim_topology :: "atom list"
  sim_system :: system
  sim_integrator :: integrator
  sim_platform :: "platform option"
  sim_platformProperties :: "(string \<times> string) list option"
  sim_context :: "'v state"
  sim_reporters :: "'v reporter list"
  currentStep :: nat

text \<open>What \<^verbatim>\<open>context.getState\<close> returns: positions and velocities only when asked for.\<close>

record 'v State =
  got_positions :: "'v list option"
  got_velocities :: "'v list option"
  got_box :: "'v \<times> 'v \<times> 'v"

text \<open>An MDAnalysis universe: the atoms of the topology file and the frames of the
  trajectory file (positions and box of each frame).\<close>

record 'v universe =
  u_atoms :: "atom list"
  u_trajectory :: "('v list \<times> ('v \<times> 'v \<times> 'v)) list"

datatype exclude = Residue | Segment | Chain

record rdf_results =
  res_bins :: "rat list"
  res_count :: "nat list"
  res_rdf :: "rat list"

text \<open>\<^verbatim>\<open>rdf.InterRDF(g1, g2, range=..., bins=..., exclude_same=...)\<close>; the atom groups
  are lists of atom indices into the universe.\<close>

record InterRDF =
  rdf_g1 :: "nat list"
  rdf_g2 :: "nat list"
  rdf_range :: "rat \<times> rat"
  rdf_nbins :: nat
  rdf_exclude_same :: "exclude option"

text \<open>The value of a keyword argument.\<close>

datatype kwval = KInt nat | KRange rat rat | KStr string

subsection \<open>The libraries as parameters\<close>

record 'v world =
  getPlatformByName :: "string \<Rightarrow> error + platform"
  AmberPrmtopFile :: "string \<Rightarrow> error + prmtop"
  AmberInpcrdFile :: "string \<Rightarrow> error + 'v inpcrd"
  createSystem :: "prmtop \<Rightarrow> nonbonded_method \<Rightarrow> nat \<Rightarrow> constraint_kind \<Rightarrow> error + system"
  newContext :: "system \<Rightarrow> integrator \<Rightarrow> platform option \<Rightarrow>
                 (string \<times> string) list option \<Rightarrow> error + 'v state"
  localEnergyMinimizer :: "'v simulation \<Rightarrow> error + 'v state"
  integratorStep :: "'v simulation \<Rightarrow> nat \<Rightarrow> error + 'v state"
  periodicWrap :: "'v state \<Rightarrow> 'v list"
  validBox :: "('v \<times> 'v \<times> 'v) \<Rightarrow> bool"
  openForWriting :: "string \<Rightarrow> error + unit"
  parseTopology :: "string \<Rightarrow> error + atom list"
  nglview :: "string \<Rightarrow> error + unit"
  pairDistance :: "('v \<times> 'v \<times> 'v) \<Rightarrow> 'v \<Rightarrow> 'v \<Rightarrow> rat"
  boxVolume :: "('v \<times> 'v \<times> 'v) \<Rightarrow> rat"
  shellVolume :: "rat \<Rightarrow> rat \<Rightarrow> rat"
  pyplot :: "string \<Rightarrow> error + unit"

section \<open>Sequential execution with a log of the calls\<close>

text \<open>
  The notebook runs top to bottom in one thread. A computation takes the log of the
  library calls made so far and returns its outcome with the extended log; an exception
  ends it. Each call is logged with the stage it belongs to, the line of the notebook
  file it stands on, its source text and the exception it raised, if any.
\<close>

datatype stage = Setup | Equilibration | Production | Analysis | Plotting

datatype event = Call stage nat string "error option"

type_synonym 'a exec = "event list \<Rightarrow> (error + 'a) \<times> event list"

definition returnX :: "'a \<Rightarrow> 'a exec" where
  "returnX x = (\<lambda>log. (Inr x, log))"

definition raiseX :: "error \<Rightarrow> 'a exec" where
  "raiseX e = (\<lambda>log. (Inl e, log))"

definition raised :: "error + 'a \<Rightarrow> error option" where
  "raised r = (case r of Inl e \<Rightarrow> Some e | Inr _ \<Rightarrow> None)"

definition call :: "stage \<Rightarrow> nat \<Rightarrow> string \<Rightarrow> error + 'a \<Rightarrow> 'a exec" where
  "call stg line src r = (\<lambda>log. (r, log @ [Call stg line src (raised r)]))"

definition bindX :: "'a exec \<Rightarrow> ('a \<Rightarrow> 'b exec) \<Rightarrow> 'b exec" where
  "bindX m f = (\<lambda>log. case m log of
                        (Inl e, log') \<Rightarrow> (Inl e, log')
                      | (Inr x, log') \<Rightarrow> f x log')"

text \<open>\<^verbatim>\<open>try: m except mm.OpenMMException: h\<close>: only an \<^verbatim>\<open>OpenMMException\<close> is caught.\<close>

definition try_except_OpenMM :: "'a exec \<Rightarrow> 'a exec \<Rightarrow> 'a exec" where
  "try_except_OpenMM m h = (\<lambda>log. case m log of
                        (Inl (OpenMMException msg), log') \<Rightarrow> h log'
                      | (Inl (PythonException msg), log') \<Rightarrow> (Inl (PythonException msg), log')
                      | (Inr x, log') \<Rightarrow> (Inr x, log'))"

section \<open>The OpenMM objects the notebook drives\<close>

text \<open>\<^verbatim>\<open>system.addForce(f)\<close> mutates the system: the force is appended.\<close>

definition addForce :: "system \<Rightarrow> force \<Rightarrow> system" where
  "addForce sys f = sys\<lparr>forces := forces sys @ [f]\<rparr>"

text \<open>\<^verbatim>\<open>app.Simulation(topology, system, integrator, platform=None, platformProperties=None)\<close>
  creates the context from the system as it is at that moment; a new simulation has no
  reporters and its step counter is 0.\<close>

definition Simulation :: "'v world \<Rightarrow> atom list \<Rightarrow> system \<Rightarrow> integrator \<Rightarrow> platform option \<Rightarrow>
    (string \<times> string) list option \<Rightarrow> error + 'v simulation" where
  "Simulation w topo sys integ plat props =
     (case newContext w sys integ plat props of
        Inl e \<Rightarrow> Inl e
      | Inr st \<Rightarrow> Inr \<lparr>sim_topology = topo, sim_system = sys, sim_integrator = integ,
                       sim_platform = plat, sim_platformProperties = props,
                       sim_context = st, sim_reporters = [], currentStep = 0\<rparr>)"

text \<open>The context setters. A list of positions or velocities whose length is not the
  number of particles of the system is rejected, and so are box vectors the engine does
  not accept.\<close>

definition setPositions :: "'v simulation \<Rightarrow> 'v list \<Rightarrow> error + 'v simulation" where
  "setPositions sim ps =
     (if length ps \<noteq> numParticles (sim_system sim)
      then Inl (OpenMMException ''wrong number of positions'')
      else Inr (sim\<lparr>sim_context := (sim_context sim)\<lparr>st_positions := ps\<rparr>\<rparr>))"

definition setVelocities :: "'v simulation \<Rightarrow> 'v list \<Rightarrow> error + 'v simulation" where
  "setVelocities sim vs =
     (if length vs \<noteq> numParticles (sim_system sim)
      then Inl (OpenMMException ''wrong number of velocities'')
      else Inr (sim\<lparr>sim_context := (sim_context sim)\<lparr>st_velocities := vs\<rparr>\<rparr>))"

definition setPeriodicBoxVectors :: "'v world \<Rightarrow> 'v simulation \<Rightarrow> 'v \<times> 'v \<times> 'v \<Rightarrow>
    error + 'v simulation" where
  "setPeriodicBoxVectors w sim box =
     (if \<not> validBox w box
      then Inl (OpenMMException ''invalid periodic box vectors'')
      else Inr (sim\<lparr>sim_context := (sim_context sim)\<lparr>st_box := box\<rparr>\<rparr>))"

definition minimizeEnergy :: "'v world \<Rightarrow> 'v simulation \<Rightarrow> error + 'v simulation" where
  "minimizeEnergy w sim =
     (case localEnergyMinimizer w sim of
        Inl e \<Rightarrow> Inl e
      | Inr st \<Rightarrow> Inr (sim\<lparr>sim_context := st\<rparr>))"

text \<open>\<^verbatim>\<open>context.getState(getPositions, getVelocities, enforcePeriodicBox)\<close> and the
  getters of the returned state; a getter raises when its data was not asked for.\<close>

definition getState :: "'v world \<Rightarrow> 'v simulation \<Rightarrow> bool \<Rightarrow> bool \<Rightarrow> bool \<Rightarrow> 'v State" where
  "getState w sim getPos getVel enforcePeriodicBox =
     \<lparr>got_positions =
        (if getPos
         then Some (if enforcePeriodicBox then periodicWrap w (sim_context sim)
                    else st_positions (sim_context sim))
         else None),
      got_velocities = (if getVel then Some (st_velocities (sim_context sim)) else None),
      got_box = st_box (sim_context sim)\<rparr>"

definition getPositions :: "'v State \<Rightarrow> error + 'v list" where
  "getPositions s = (case got_positions s of
                       None \<Rightarrow> Inl (OpenMMException ''positions were not requested'')
                     | Some ps \<Rightarrow> Inr ps)"

definition getVelocities :: "'v State \<Rightarrow> error + 'v list" where
  "getVelocities s = (case got_velocities s of
                        None \<Rightarrow> Inl (OpenMMException ''velocities were not requested'')
                      | Some vs \<Rightarrow> Inr vs)"

definition getPeriodicBoxVectors :: "'v State \<Rightarrow> 'v \<times> 'v \<times> 'v" where
  "getPeriodicBoxVectors s = got_box s"

subsection \<open>Reporters and the stepping loop\<close>

definition new_reporter :: "reporter_kind \<Rightarrow> string \<Rightarrow> nat \<Rightarrow> 'v reporter" where
  "new_reporter kind file interval =
     \<lparr>rep_kind = kind, rep_file = file, reportInterval = interval, rep_written = []\<rparr>"

definition reporters_append :: "'v simulation \<Rightarrow> 'v reporter \<Rightarrow> 'v simulation" where
  "reporters_append sim r = sim\<lparr>sim_reporters := sim_reporters sim @ [r]\<rparr>"

text \<open>The column titles a \<^verbatim>\<open>StateDataReporter\<close> writes, in the library's order.\<close>

definition headers :: "sdr_flags \<Rightarrow> string list" where
  "headers fl =
     (if f_progress fl then [''Progress (%)''] else []) @
     (if f_step fl then [''Step''] else []) @
     (if f_time fl then [''Time (ps)''] else []) @
     (if f_potentialEnergy fl then [''Potential Energy (kJ/mole)''] else []) @
     (if f_kineticEnergy fl then [''Kinetic Energy (kJ/mole)''] else []) @
     (if f_totalEnergy fl then [''Total Energy (kJ/mole)''] else []) @
     (if f_temperature fl then [''Temperature (K)''] else []) @
     (if f_volume fl then [''Box Volume (nm^3)''] else []) @
     (if f_density fl then [''Density (g/mL)''] else []) @
     (if f_speed fl then [''Speed (ns/day)''] else []) @
     (if f_elapsedTime fl then [''Elapsed Time (s)''] else []) @
     (if f_remainingTime fl then [''Time Remaining''] else [])"

text \<open>
  Modelled from the spec: the stepping loop of \<^verbatim>\<open>Simulation.step\<close> and the reporters'
  schedule are OpenMM's, not under src/. The spec has the outputs "sampled at fixed
  intervals": a reporter with interval \<open>k\<close> is due in \<open>k - currentStep mod k\<close> steps.
  The loop advances to the nearest due report (or to the end), lets each reporter that
  is due there write one record, and repeats, as \<^verbatim>\<open>Simulation._simulate\<close> does.
\<close>

definition describeNextReport :: "'v reporter \<Rightarrow> nat \<Rightarrow> nat" where
  "describeNextReport r cur = reportInterval r - cur mod reportInterval r"

fun scan_reports :: "nat \<times> bool \<Rightarrow> nat list \<Rightarrow> nat \<times> bool" where
  "scan_reports (n, anyReport) [] = (n, anyReport)"
| "scan_reports (n, anyReport) (k # ks) =
     (if 0 < k \<and> k \<le> n then scan_reports (k, True) ks
      else scan_reports (n, anyReport) ks)"

definition generate_reports :: "nat \<Rightarrow> 'v simulation \<Rightarrow> nat list \<Rightarrow> 'v reporter list" where
  "generate_reports nextSteps sim nextReport =
     map (\<lambda>(r, k). if k = nextSteps
                   then r\<lparr>rep_written := rep_written r @ [(currentStep sim, sim_context sim)]\<rparr>
                   else r)
         (zip (sim_reporters sim) nextReport)"

definition advance :: "'v world \<Rightarrow> nat \<Rightarrow> 'v simulation \<Rightarrow> error + 'v simulation" where
  "advance w endStep sim =
     (if list_ex (\<lambda>r. reportInterval r = 0) (sim_reporters sim)
      then Inl (PythonException ''ZeroDivisionError'')
      else
        let nextReport = map (\<lambda>r. describeNextReport r (currentStep sim)) (sim_reporters sim);
            (nextSteps, anyReport) = scan_reports (endStep - currentStep sim, False) nextReport
        in case integratorStep w sim nextSteps of
             Inl e \<Rightarrow> Inl e
           | Inr st \<Rightarrow>
               let sim' = sim\<lparr>sim_context := st, currentStep := currentStep sim + nextSteps\<rparr>
               in Inr (if anyReport
                       then sim'\<lparr>sim_reporters := generate_reports nextSteps sim' nextReport\<rparr>
                       else sim'))"

lemma scan_reports_pos: "0 < n \<Longrightarrow> 0 < fst (scan_reports (n, b) ks)"
  by (induction ks arbitrary: n b) auto

lemma scan_reports_le: "fst (scan_reports (n, b) ks) \<le> n"
proof (induction ks arbitrary: n b)
  case Nil
  show ?case by simp
next
  case (Cons k ks)
  show ?case
  proof (cases "0 < k \<and> k \<le> n")
    case True
    have "fst (scan_reports (k, True) ks) \<le> k" by (rule Cons.IH)
    with True show ?thesis by simp
  next
    case False
    then have "scan_reports (n, b) (k # ks) = scan_reports (n, b) ks" by auto
    with Cons.IH [of n b] show ?thesis by simp
  qed
qed

lemma advance_currentStep:
  assumes "advance w endStep sim = Inr sim'"
  shows "currentStep sim' = currentStep sim +
           fst (scan_reports (endStep - currentStep sim, False)
                  (map (\<lambda>r. describeNextReport r (currentStep sim)) (sim_reporters sim)))"
  using assms
  by (auto simp: advance_def Let_def split: if_splits sum.splits prod.splits)

lemma advance_progress:
  assumes "advance w endStep sim = Inr sim'" and "currentStep sim < endStep"
  shows "endStep - currentStep sim' < endStep - currentStep sim"
proof -
  let ?n = "fst (scan_reports (endStep - currentStep sim, False)
                  (map (\<lambda>r. describeNextReport r (currentStep sim)) (sim_reporters sim)))"
  have "0 < ?n" using assms(2) by (intro scan_reports_pos) simp
  moreover have "currentStep sim' = currentStep sim + ?n"
    using assms(1) by (rule advance_currentStep)
  ultimately show ?thesis using assms(2) by simp
qed

function simulate :: "'v world \<Rightarrow> nat \<Rightarrow> 'v simulation \<Rightarrow> error + 'v simulation" where
  "simulate w endStep sim =
     (if currentStep sim < endStep
      then (case advance w endStep sim of
              Inl e \<Rightarrow> Inl e
            | Inr sim' \<Rightarrow> simulate w endStep sim')
      else Inr sim)"
  by pat_completeness auto
termination
  by (relation "measure (\<lambda>(w, endStep, sim). endStep - currentStep sim)")
     (auto dest: advance_progress)

text \<open>\<^verbatim>\<open>simulation.step(steps)\<close>.\<close>

definition step :: "'v world \<Rightarrow> 'v simulation \<Rightarrow> nat \<Rightarrow> error + 'v simulation" where
  "step w sim steps = simulate w (currentStep sim + steps) sim"

declare simulate.simps [simp del]

section \<open>The MDAnalysis objects the notebook drives\<close>

text \<open>The trajectory file a simulation has written: the frames of the DCD reporters on
  that file. The reporter of a periodic system writes the wrapped positions.\<close>

definition trajectory_file :: "'v world \<Rightarrow> 'v simulation \<Rightarrow> string \<Rightarrow> ('v list \<times> ('v \<times> 'v \<times> 'v)) list" where
  "trajectory_file w sim file =
     concat (map (\<lambda>r. if rep_kind r = DCDReporter \<and> rep_file r = file
                       then map (\<lambda>(n, st). (periodicWrap w st, st_box st)) (rep_written r)
                       else [])
                 (sim_reporters sim))"

text \<open>\<^verbatim>\<open>mda.Universe(topology_file, trajectory_file)\<close>: a trajectory whose frames do not
  have one position per atom of the topology is rejected.\<close>

definition Universe :: "'v world \<Rightarrow> string \<Rightarrow> ('v list \<times> ('v \<times> 'v \<times> 'v)) list \<Rightarrow> error + 'v universe" where
  "Universe w topfile frames =
     (case parseTopology w topfile of
        Inl e \<Rightarrow> Inl e
      | Inr atoms \<Rightarrow>
          if list_ex (\<lambda>(ps, box). length ps \<noteq> length atoms) frames
          then Inl (PythonException ''ValueError'')
          else Inr \<lparr>u_atoms = atoms, u_trajectory = frames\<rparr>)"

text \<open>\<^verbatim>\<open>u.select_atoms("element X")\<close>: the indices of the atoms of that element. Only this
  form of selection occurs in the notebook; any other string is refused here.\<close>

definition select_atoms :: "'v universe \<Rightarrow> string \<Rightarrow> error + nat list" where
  "select_atoms u sel =
     (if take 8 sel = ''element ''
      then Inr (filter (\<lambda>i. element (u_atoms u ! i) = drop 8 sel) [0..<length (u_atoms u)])
      else Inl (PythonException ''SelectionError''))"

text \<open>
  Modelled from the spec: \<^verbatim>\<open>rdf.InterRDF\<close> is MDAnalysis's, not under src/. The spec has
  its output as "two RDF curves (distance bins, g(r) values) over a fixed range and bin
  count, excluding same-residue pairs". The constructor follows the library's published
  signature \<^verbatim>\<open>InterRDF(g1, g2, nbins=75, range=(0.0, 15.0), norm="rdf",
  exclusion_block=None, exclude_same=None, **kwargs)\<close>: a keyword it does not name goes to
  \<^verbatim>\<open>**kwargs\<close> and on to the base class, which ignores it.
\<close>

definition InterRDF_init :: "nat list \<Rightarrow> nat list \<Rightarrow> (string \<times> kwval) list \<Rightarrow> error + InterRDF" where
  "InterRDF_init g1 g2 kwargs =
     (let nbins = (case map_of kwargs ''nbins'' of Some (KInt n) \<Rightarrow> n | _ \<Rightarrow> 75);
          rng = (case map_of kwargs ''range'' of Some (KRange lo hi) \<Rightarrow> (lo, hi) | _ \<Rightarrow> (0, 15));
          mk = (\<lambda>ex. \<lparr>rdf_g1 = g1, rdf_g2 = g2, rdf_range = rng, rdf_nbins = nbins,
                       rdf_exclude_same = ex\<rparr>)
      in case map_of kwargs ''exclude_same'' of
           None \<Rightarrow> Inr (mk None)
         | Some (KStr x) \<Rightarrow>
             if x = ''residue'' then Inr (mk (Some Residue))
             else if x = ''segment'' then Inr (mk (Some Segment))
             else if x = ''chain'' then Inr (mk (Some Chain))
             else Inl (PythonException ''ValueError'')
         | Some _ \<Rightarrow> Inl (PythonException ''ValueError''))"

text \<open>Whether two atoms are excluded as a pair.\<close>

definition same_group :: "exclude option \<Rightarrow> atom \<Rightarrow> atom \<Rightarrow> bool" where
  "same_group ex a b =
     (case ex of
        None \<Rightarrow> False
      | Some Residue \<Rightarrow> resindex a = resindex b
      | Some Segment \<Rightarrow> segindex a = segindex b
      | Some Chain \<Rightarrow> chainID a = chainID b)"

text \<open>The pairs of one frame that enter the histogram: within the upper end of the
  range, and not excluded.\<close>

definition contributing_pairs :: "'v world \<Rightarrow> InterRDF \<Rightarrow> atom list \<Rightarrow>
    'v list \<times> ('v \<times> 'v \<times> 'v) \<Rightarrow> (nat \<times> nat) list" where
  "contributing_pairs w r atoms frame =
     filter (\<lambda>(i, j). \<not> same_group (rdf_exclude_same r) (atoms ! i) (atoms ! j) \<and>
                       pairDistance w (snd frame) (fst frame ! i) (fst frame ! j)
                         \<le> snd (rdf_range r))
            (List.product (rdf_g1 r) (rdf_g2 r))"

definition frame_distances :: "'v world \<Rightarrow> InterRDF \<Rightarrow> atom list \<Rightarrow>
    'v list \<times> ('v \<times> 'v \<times> 'v) \<Rightarrow> rat list" where
  "frame_distances w r atoms frame =
     map (\<lambda>(i, j). pairDistance w (snd frame) (fst frame ! i) (fst frame ! j))
         (contributing_pairs w r atoms frame)"

text \<open>\<^verbatim>\<open>numpy.histogram(ds, bins=n, range=(lo, hi))\<close>: \<open>n\<close> bins of equal width, each
  closed on the left and open on the right but the last, which is closed.\<close>

definition bin_index :: "rat \<times> rat \<Rightarrow> nat \<Rightarrow> rat \<Rightarrow> nat option" where
  "bin_index rng n d =
     (if n = 0 \<or> snd rng \<le> fst rng \<or> d < fst rng \<or> snd rng < d then None
      else if d = snd rng then Some (n - 1)
      else Some (nat \<lfloor>(d - fst rng) * of_nat n / (snd rng - fst rng)\<rfloor>))"

definition histogram :: "rat \<times> rat \<Rightarrow> nat \<Rightarrow> rat list \<Rightarrow> nat list" where
  "histogram rng n ds = map (\<lambda>i. length (filter (\<lambda>d. bin_index rng n d = Some i) ds)) [0..<n]"

definition edge :: "rat \<times> rat \<Rightarrow> nat \<Rightarrow> nat \<Rightarrow> rat" where
  "edge rng n i = fst rng + of_nat i * (snd rng - fst rng) / of_nat n"

text \<open>\<^verbatim>\<open>InterRDF.run()\<close>: the counts of all frames are added up, and g(r) is the count
  of a bin over the frame count, the shell volume and the pair density.\<close>

definition run_rdf :: "'v world \<Rightarrow> 'v universe \<Rightarrow> InterRDF \<Rightarrow> rdf_results" where
  "run_rdf w u r =
     (let n = rdf_nbins r;
          rng = rdf_range r;
          frames = u_trajectory u;
          count = foldl (\<lambda>acc frame. map2 (+) acc (histogram rng n (frame_distances w r (u_atoms u) frame)))
                        (replicate n 0) frames;
          volume_cum = sum_list (map (\<lambda>frame. boxVolume w (snd frame)) frames);
          nframes = of_nat (length frames);
          npairs = of_nat (length (rdf_g1 r) * length (rdf_g2 r));
          norm = (\<lambda>i. nframes * shellVolume w (edge rng n i) (edge rng n (i + 1)) * npairs
                        / (volume_cum / nframes))
      in \<lparr>res_bins = map (\<lambda>i. (edge rng n i + edge rng n (i + 1)) / 2) [0..<n],
          res_count = count,
          res_rdf = map (\<lambda>i. of_nat (count ! i) / norm i) [0..<n]\<rparr>)"

text \<open>\<^verbatim>\<open>plt.plot(x, y)\<close> refuses arrays of different lengths.\<close>

definition plt_plot :: "'v world \<Rightarrow> rat list \<Rightarrow> rat list \<Rightarrow> error + unit" where
  "plt_plot w xs ys =
     (if length xs \<noteq> length ys then Inl (PythonException ''ValueError'')
      else pyplot w ''plot'')"

section \<open>The notebook\<close>

definition temperature :: nat where
  "temperature = 300"

definition pressure :: nat where
  "pressure = 1"

text \<open>Lines 44 to 48: the device selection, the one \<^verbatim>\<open>try/except\<close> of the notebook.
  In the \<^verbatim>\<open>except\<close> branch the name \<^verbatim>\<open>properties\<close> stays unbound (\<open>None\<close> here).\<close>

definition select_platform :: "'v world \<Rightarrow> (platform \<times> (string \<times> string) list option) exec" where
  "select_platform w =
     try_except_OpenMM
       (bindX (call Setup 45 ''mm.Platform.getPlatformByName(CUDA)'' (getPlatformByName w ''CUDA''))
          (\<lambda>platform. returnX (platform, Some [(''CudaPrecision'', ''mixed'')])))
       (bindX (call Setup 48 ''mm.Platform.getPlatformByName(Reference)''
                 (getPlatformByName w ''Reference''))
          (\<lambda>platform. returnX (platform, None)))"

text \<open>Lines 40 to 48.\<close>

definition cell_load :: "'v world \<Rightarrow> (prmtop \<times> 'v inpcrd \<times> platform \<times> (string \<times> string) list option) exec" where
  "cell_load w =
     bindX (call Setup 40 ''app.AmberPrmtopFile'' (AmberPrmtopFile w ''water/water_box.prmtop''))
       (\<lambda>prmtop.
     bindX (call Setup 41 ''app.AmberInpcrdFile'' (AmberInpcrdFile w ''water/water_box.inpcrd''))
       (\<lambda>inpcrd.
     bindX (select_platform w)
       (\<lambda>(platform, properties).
     returnX (prmtop, inpcrd, platform, properties))))"

definition log_flags :: sdr_flags where
  "log_flags = sdr_defaults\<lparr>f_step := True, f_potentialEnergy := True,
                            f_temperature := True, f_density := True\<rparr>"

text \<open>Lines 58 to 74: the system, the barostat, the equilibration simulation, the
  minimisation and the log reporter.\<close>

definition equilibration_setup :: "'v world \<Rightarrow> prmtop \<Rightarrow> 'v inpcrd \<Rightarrow> (system \<times> 'v simulation) exec" where
  "equilibration_setup w prmtop inpcrd =
     bindX (call Setup 58 ''prmtop.createSystem'' (createSystem w prmtop PME 1 HBonds))
       (\<lambda>system0.
     let integratorNPT = LangevinIntegrator temperature 1 2;
         system = addForce system0 (MonteCarloBarostat pressure temperature)
     in
     bindX (call Equilibration 67 ''app.Simulation''
              (Simulation w (prm_topology prmtop) system integratorNPT None None))
       (\<lambda>simulationNPT.
     bindX (call Equilibration 68 ''simulationNPT.context.setPositions''
              (setPositions simulationNPT (crd_positions inpcrd)))
       (\<lambda>simulationNPT.
     bindX (case crd_boxVectors inpcrd of
              None \<Rightarrow> returnX simulationNPT
            | Some box \<Rightarrow> call Equilibration 71 ''simulationNPT.context.setPeriodicBoxVectors''
                            (setPeriodicBoxVectors w simulationNPT box))
       (\<lambda>simulationNPT.
     bindX (call Equilibration 73 ''simulationNPT.minimizeEnergy'' (minimizeEnergy w simulationNPT))
       (\<lambda>simulationNPT.
     bindX (call Equilibration 74 ''app.StateDataReporter(water/npt.log)''
              (openForWriting w ''water/npt.log''))
       (\<lambda>_.
     returnX (system, reporters_append simulationNPT
                        (new_reporter (StateDataReporter log_flags) ''water/npt.log'' 1000))))))))"

text \<open>Lines 79 to 82: the final state of the equilibration.\<close>

definition equilibrated_state :: "'v world \<Rightarrow> 'v simulation \<Rightarrow> ('v list \<times> 'v list \<times> ('v \<times> 'v \<times> 'v)) exec" where
  "equilibrated_state w simulationNPT =
     bindX (call Equilibration 79 ''simulationNPT.context.getState''
              (Inr (getState w simulationNPT True True True)))
       (\<lambda>state_eq.
     bindX (call Equilibration 80 ''state_eq.getPositions'' (getPositions state_eq))
       (\<lambda>positions_eq.
     bindX (call Equilibration 81 ''state_eq.getVelocities'' (getVelocities state_eq))
       (\<lambda>velocities_eq.
     bindX (call Equilibration 82 ''state_eq.getPeriodicBoxVectors''
              (Inr (getPeriodicBoxVectors state_eq)))
       (\<lambda>box_vectors_eq.
     returnX (positions_eq, velocities_eq, box_vectors_eq)))))"

text \<open>Lines 58 to 82: the whole equilibration cell.\<close>

definition cell_equilibrate :: "'v world \<Rightarrow> prmtop \<Rightarrow> 'v inpcrd \<Rightarrow>
    (system \<times> 'v simulation \<times> 'v list \<times> 'v list \<times> ('v \<times> 'v \<times> 'v)) exec" where
  "cell_equilibrate w prmtop inpcrd =
     bindX (equilibration_setup w prmtop inpcrd)
       (\<lambda>(system, simulationNPT).
     bindX (call Equilibration 75 ''simulationNPT.step(50000)'' (step w simulationNPT 50000))
       (\<lambda>simulationNPT.
     bindX (equilibrated_state w simulationNPT)
       (\<lambda>(positions_eq, velocities_eq, box_vectors_eq).
     returnX (system, simulationNPT, positions_eq, velocities_eq, box_vectors_eq))))"

text \<open>Lines 92 to 100: the production simulation and its initial state.\<close>

definition production_context :: "'v world \<Rightarrow> prmtop \<Rightarrow> system \<Rightarrow> 'v list \<Rightarrow> 'v list \<Rightarrow>
    ('v \<times> 'v \<times> 'v) \<Rightarrow> 'v simulation exec" where
  "production_context w prmtop system positions_eq velocities_eq box_vectors_eq =
     (let integratorProd = LangevinIntegrator temperature 1 2 in
     bindX (call Production 93 ''app.Simulation''
              (Simulation w (prm_topology prmtop) system integratorProd None None))
       (\<lambda>simulationProd.
     bindX (call Production 96 ''simulationProd.context.setPositions''
              (setPositions simulationProd positions_eq))
       (\<lambda>simulationProd.
     bindX (call Production 97 ''simulationProd.context.setVelocities''
              (setVelocities simulationProd velocities_eq))
       (\<lambda>simulationProd.
     call Production 100 ''simulationProd.context.setPeriodicBoxVectors''
       (setPeriodicBoxVectors w simulationProd box_vectors_eq)))))"

text \<open>Lines 103 and 104: the trajectory and log reporters.\<close>

definition production_reporters :: "'v world \<Rightarrow> 'v simulation \<Rightarrow> 'v simulation exec" where
  "production_reporters w simulationProd =
     bindX (call Production 103 ''app.DCDReporter(water/production.dcd)''
              (openForWriting w ''water/production.dcd''))
       (\<lambda>_.
     bindX (call Production 104 ''app.StateDataReporter(water/production.log)''
              (openForWriting w ''water/production.log''))
       (\<lambda>_.
     returnX (reporters_append
                (reporters_append simulationProd
                   (new_reporter DCDReporter ''water/production.dcd'' 1000))
                (new_reporter (StateDataReporter log_flags) ''water/production.log'' 1000))))"

text \<open>Lines 92 to 107: the whole production cell.\<close>

definition cell_production :: "'v world \<Rightarrow> prmtop \<Rightarrow> system \<Rightarrow> 'v list \<Rightarrow> 'v list \<Rightarrow>
    ('v \<times> 'v \<times> 'v) \<Rightarrow> 'v simulation exec" where
  "cell_production w prmtop system positions_eq velocities_eq box_vectors_eq =
     bindX (production_context w prmtop system positions_eq velocities_eq box_vectors_eq)
       (\<lambda>simulationProd.
     bindX (production_reporters w simulationProd)
       (\<lambda>simulationProd.
     call Production 107 ''simulationProd.step(500000)'' (step w simulationProd 500000)))"

text \<open>Lines 143 to 156: the trajectory is loaded and shown.\<close>

definition cell_visualize :: "'v world \<Rightarrow> 'v simulation \<Rightarrow> 'v universe exec" where
  "cell_visualize w simulationProd =
     bindX (call Analysis 143 ''mda.Universe''
              (Universe w ''water/water_box.prmtop''
                 (trajectory_file w simulationProd ''water/production.dcd'')))
       (\<lambda>u.
     bindX (call Analysis 145 ''nv.show_mdanalysis'' (nglview w ''show_mdanalysis''))
       (\<lambda>_.
     bindX (call Analysis 148 ''view.clear_representations'' (nglview w ''clear_representations''))
       (\<lambda>_.
     bindX (call Analysis 151 ''view.add_representation'' (nglview w ''add_representation''))
       (\<lambda>_.
     bindX (call Analysis 154 ''view.center'' (nglview w ''center''))
       (\<lambda>_.
     returnX u)))))"

definition rdf_kwargs :: "(string \<times> kwval) list" where
  "rdf_kwargs = [(''range'', KRange 0 10), (''bins'', KInt 100), (''exclude_same'', KStr ''residue'')]"

text \<open>Lines 176 to 185: the two radial distribution functions.\<close>

definition cell_analysis :: "'v world \<Rightarrow> 'v universe \<Rightarrow> (rdf_results \<times> rdf_results) exec" where
  "cell_analysis w u =
     bindX (call Analysis 176 ''u.select_atoms(element O)'' (select_atoms u ''element O''))
       (\<lambda>oxygen_atoms.
     bindX (call Analysis 177 ''u.select_atoms(element H)'' (select_atoms u ''element H''))
       (\<lambda>hydrogen_atoms.
     bindX (call Analysis 180 ''rdf.InterRDF(oxygen_atoms, oxygen_atoms)''
              (InterRDF_init oxygen_atoms oxygen_atoms rdf_kwargs))
       (\<lambda>rdf_OO.
     bindX (call Analysis 181 ''rdf_OO.run'' (Inr (run_rdf w u rdf_OO)))
       (\<lambda>results_OO.
     bindX (call Analysis 184 ''rdf.InterRDF(oxygen_atoms, hydrogen_atoms)''
              (InterRDF_init oxygen_atoms hydrogen_atoms rdf_kwargs))
       (\<lambda>rdf_OH.
     bindX (call Analysis 185 ''rdf_OH.run'' (Inr (run_rdf w u rdf_OH)))
       (\<lambda>results_OH.
     returnX (results_OO, results_OH)))))))"

text \<open>Lines 197 to 215: the two plots.\<close>

definition cell_plot :: "'v world \<Rightarrow> rdf_results \<Rightarrow> rdf_results \<Rightarrow> unit exec" where
  "cell_plot w results_OO results_OH =
     bindX (call Plotting 197 ''plt.figure'' (pyplot w ''figure'')) (\<lambda>_.
     bindX (call Plotting 200 ''plt.subplot(1, 2, 1)'' (pyplot w ''subplot'')) (\<lambda>_.
     bindX (call Plotting 201 ''plt.plot(rdf_OO.results.bins, rdf_OO.results.rdf)''
              (plt_plot w (res_bins results_OO) (res_rdf results_OO))) (\<lambda>_.
     bindX (call Plotting 202 ''plt.title'' (pyplot w ''title'')) (\<lambda>_.
     bindX (call Plotting 203 ''plt.xlabel'' (pyplot w ''xlabel'')) (\<lambda>_.
     bindX (call Plotting 204 ''plt.ylabel'' (pyplot w ''ylabel'')) (\<lambda>_.
     bindX (call Plotting 205 ''plt.grid'' (pyplot w ''grid'')) (\<lambda>_.
     bindX (call Plotting 208 ''plt.subplot(1, 2, 2)'' (pyplot w ''subplot'')) (\<lambda>_.
     bindX (call Plotting 209 ''plt.plot(rdf_OH.results.bins, rdf_OH.results.rdf)''
              (plt_plot w (res_bins results_OH) (res_rdf results_OH))) (\<lambda>_.
     bindX (call Plotting 210 ''plt.title'' (pyplot w ''title'')) (\<lambda>_.
     bindX (call Plotting 211 ''plt.xlabel'' (pyplot w ''xlabel'')) (\<lambda>_.
     bindX (call Plotting 212 ''plt.ylabel'' (pyplot w ''ylabel'')) (\<lambda>_.
     bindX (call Plotting 213 ''plt.grid'' (pyplot w ''grid'')) (\<lambda>_.
     call Plotting 215 ''plt.tight_layout'' (pyplot w ''tight_layout''))))))))))))))"

text \<open>The names the notebook has bound when it ends.\<close>

record 'v notebook =
  nb_platform :: platform
  nb_properties :: "(string \<times> string) list option"
  nb_system :: system
  nb_simulationNPT :: "'v simulation"
  nb_positions_eq :: "'v list"
  nb_velocities_eq :: "'v list"
  nb_box_vectors_eq :: "'v \<times> 'v \<times> 'v"
  nb_simulationProd :: "'v simulation"
  nb_u :: "'v universe"
  nb_rdf_OO :: rdf_results
  nb_rdf_OH :: rdf_results

text \<open>Lines 58 to 215: everything after the loading cell. The names \<^verbatim>\<open>platform\<close> and
  \<^verbatim>\<open>properties\<close> do not occur on these lines.\<close>

definition cells_after_load :: "'v world \<Rightarrow> prmtop \<Rightarrow> 'v inpcrd \<Rightarrow>
    (system \<times> 'v simulation \<times> 'v list \<times> 'v list \<times> ('v \<times> 'v \<times> 'v) \<times> 'v simulation \<times>
     'v universe \<times> rdf_results \<times> rdf_results) exec" where
  "cells_after_load w prmtop inpcrd =
     bindX (cell_equilibrate w prmtop inpcrd)
       (\<lambda>(system, simulationNPT, positions_eq, velocities_eq, box_vectors_eq).
     bindX (cell_production w prmtop system positions_eq velocities_eq box_vectors_eq)
       (\<lambda>simulationProd.
     bindX (cell_visualize w simulationProd)
       (\<lambda>u.
     bindX (cell_analysis w u)
       (\<lambda>(results_OO, results_OH).
     bindX (cell_plot w results_OO results_OH)
       (\<lambda>_.
     returnX (system, simulationNPT, positions_eq, velocities_eq, box_vectors_eq,
              simulationProd, u, results_OO, results_OH))))))"

definition workflow :: "'v world \<Rightarrow> 'v notebook exec" where
  "workflow w =
     bindX (cell_load w)
       (\<lambda>(prmtop, inpcrd, platform, properties).
     bindX (cells_after_load w prmtop inpcrd)
       (\<lambda>(system, simulationNPT, positions_eq, velocities_eq, box_vectors_eq,
          simulationProd, u, results_OO, results_OH).
     returnX \<lparr>nb_platform = platform, nb_properties = properties, nb_system = system,
              nb_simulationNPT = simulationNPT, nb_positions_eq = positions_eq,
              nb_velocities_eq = velocities_eq, nb_box_vectors_eq = box_vectors_eq,
              nb_simulationProd = simulationProd, nb_u = u,
              nb_rdf_OO = results_OO, nb_rdf_OH = results_OH\<rparr>))"

section \<open>Definitions for the statements\<close>

text \<open>The steps in \<open>(c, e]\<close> at which a reporter with interval \<open>k\<close> writes.\<close>

definition report_steps :: "nat \<Rightarrow> nat \<Rightarrow> nat \<Rightarrow> nat list" where
  "report_steps k c e = filter (\<lambda>s. s mod k = 0) [Suc c ..< Suc e]"

text \<open>What stepping from step \<open>c\<close> to step \<open>e\<close> does to a reporter: it stays the same
  reporter and has written one more record at each of its report steps.\<close>

definition same_reporter :: "nat \<Rightarrow> nat \<Rightarrow> 'v reporter \<Rightarrow> 'v reporter \<Rightarrow> bool" where
  "same_reporter c e r r' \<longleftrightarrow>
     rep_kind r' = rep_kind r \<and> rep_file r' = rep_file r \<and> reportInterval r' = reportInterval r \<and>
     map fst (rep_written r') = map fst (rep_written r) @ report_steps (reportInterval r) c e"

subsection \<open>The log of a run\<close>

fun ev_line :: "event \<Rightarrow> nat" where
  "ev_line (Call s n src r) = n"

fun ev_stage :: "event \<Rightarrow> stage" where
  "ev_stage (Call s n src r) = s"

fun ev_raised :: "event \<Rightarrow> error option" where
  "ev_raised (Call s n src r) = r"

fun ev_src :: "event \<Rightarrow> string" where
  "ev_src (Call s n src r) = src"

text \<open>The one exception the notebook handles: an \<^verbatim>\<open>OpenMMException\<close> raised on
  line 45, inside the \<^verbatim>\<open>try\<close>.\<close>

fun handled :: "event \<Rightarrow> bool" where
  "handled (Call s n src (Some (OpenMMException msg))) = (n = 45)"
| "handled (Call s n src r) = False"

text \<open>The exceptions of a log that no handler caught, in order.\<close>

definition unhandled_errors :: "event list \<Rightarrow> error list" where
  "unhandled_errors l = List.map_filter (\<lambda>ev. if handled ev then None else ev_raised ev) l"

definition outcome_errors :: "error + 'a \<Rightarrow> error list" where
  "outcome_errors out = (case out of Inl e \<Rightarrow> [e] | Inr x \<Rightarrow> [])"

text \<open>A run that ends with an exception has it from its last call, unhandled.\<close>

definition ends_with :: "error + 'a \<Rightarrow> event list \<Rightarrow> bool" where
  "ends_with out l =
     (case out of
        Inl e \<Rightarrow> l \<noteq> [] \<and> ev_raised (last l) = Some e \<and> \<not> handled (last l)
      | Inr x \<Rightarrow> True)"

text \<open>A computation whose calls stand on lines in \<open>(a, b]\<close>: it only appends to the log,
  its calls run in the order of their lines, each at most once, and an exception that is
  not handled ends it and is its outcome.\<close>

definition runs :: "nat \<Rightarrow> nat \<Rightarrow> 'a exec \<Rightarrow> bool" where
  "runs a b m \<longleftrightarrow>
     a \<le> b \<and>
     (\<forall>l0. m l0 = (fst (m []), l0 @ snd (m []))) \<and>
     sorted_wrt (<) (map ev_line (snd (m []))) \<and>
     (\<forall>ev \<in> set (snd (m [])). a < ev_line ev \<and> ev_line ev \<le> b) \<and>
     unhandled_errors (snd (m [])) = outcome_errors (fst (m [])) \<and>
     ends_with (fst (m [])) (snd (m []))"

subsection \<open>Well-formed engine states\<close>

text \<open>A context state fits a system when it has one position and one velocity per
  particle and box vectors the engine accepts. An engine is well behaved when the states
  it creates and returns fit the system, given that the state it started from did, and
  wrapping into the periodic box keeps the number of positions.\<close>

definition ctx_ok :: "'v world \<Rightarrow> system \<Rightarrow> 'v state \<Rightarrow> bool" where
  "ctx_ok w sys st \<longleftrightarrow>
     length (st_positions st) = numParticles sys \<and>
     length (st_velocities st) = numParticles sys \<and>
     validBox w (st_box st)"

definition engine_ok :: "'v world \<Rightarrow> bool" where
  "engine_ok w \<longleftrightarrow>
     (\<forall>sys i p pr st. newContext w sys i p pr = Inr st \<longrightarrow> ctx_ok w sys st) \<and>
     (\<forall>sim st. ctx_ok w (sim_system sim) (sim_context sim) \<longrightarrow>
               localEnergyMinimizer w sim = Inr st \<longrightarrow> ctx_ok w (sim_system sim) st) \<and>
     (\<forall>sim n st. ctx_ok w (sim_system sim) (sim_context sim) \<longrightarrow>
                 integratorStep w sim n = Inr st \<longrightarrow> ctx_ok w (sim_system sim) st) \<and>
     (\<forall>st. length (periodicWrap w st) = length (st_positions st))"

text \<open>Every record a reporter of the simulation has written holds a state that fits
  the system.\<close>

definition written_ok :: "'v world \<Rightarrow> system \<Rightarrow> 'v simulation \<Rightarrow> bool" where
  "written_ok w sys sim \<longleftrightarrow>
     (\<forall>r \<in> set (sim_reporters sim). \<forall>rec \<in> set (rep_written r). ctx_ok w sys (snd rec))"

subsection \<open>The notebook's names without the platform\<close>

definition without_platform :: "'v notebook \<Rightarrow>
    system \<times> 'v simulation \<times> 'v list \<times> 'v list \<times> ('v \<times> 'v \<times> 'v) \<times> 'v simulation \<times>
    'v universe \<times> rdf_results \<times> rdf_results" where
  "without_platform nb =
     (nb_system nb, nb_simulationNPT nb, nb_positions_eq nb, nb_velocities_eq nb,
      nb_box_vectors_eq nb, nb_simulationProd nb, nb_u nb, nb_rdf_OO nb, nb_rdf_OH nb)"

subsection \<open>A sample world\<close>

text \<open>Two water molecules on a line. No CUDA platform is registered. The engine keeps
  positions and velocities, and where the system holds a barostat each call of the
  integrator rescales the box.\<close>

fun is_barostat :: "force \<Rightarrow> bool" where
  "is_barostat (MonteCarloBarostat p t) = True"
| "is_barostat (ForceFieldTerm n) = False"

definition water_atoms :: "atom list" where
  "water_atoms =
     [\<lparr>element = ''O'', resindex = 0, segindex = 0, chainID = ''A''\<rparr>,
      \<lparr>element = ''H'', resindex = 0, segindex = 0, chainID = ''A''\<rparr>,
      \<lparr>element = ''H'', resindex = 0, segindex = 0, chainID = ''A''\<rparr>,
      \<lparr>element = ''O'', resindex = 1, segindex = 0, chainID = ''A''\<rparr>,
      \<lparr>element = ''H'', resindex = 1, segindex = 0, chainID = ''A''\<rparr>,
      \<lparr>element = ''H'', resindex = 1, segindex = 0, chainID = ''A''\<rparr>]"

definition sample_prmtop :: prmtop where
  "sample_prmtop = \<lparr>prm_topology = water_atoms\<rparr>"

definition sample_inpcrd :: "int inpcrd" where
  "sample_inpcrd = \<lparr>crd_positions = [0, 1, 2, 10, 11, 12], crd_boxVectors = Some (30, 30, 30)\<rparr>"

definition sample_world :: "int world" where
  "sample_world =
     \<lparr>getPlatformByName = (\<lambda>name. if name = ''Reference'' then Inr (Platform name)
                                   else Inl (OpenMMException ''no such platform'')),
      AmberPrmtopFile = (\<lambda>file. Inr sample_prmtop),
      AmberInpcrdFile = (\<lambda>file. Inr sample_inpcrd),
      createSystem = (\<lambda>p m c k. Inr \<lparr>numParticles = length (prm_topology p),
                                       forces = [ForceFieldTerm ''NonbondedForce'']\<rparr>),
      newContext = (\<lambda>sys i p props. Inr \<lparr>st_positions = replicate (numParticles sys) 0,
                                          st_velocities = replicate (numParticles sys) 0,
                                          st_box = (20, 20, 20)\<rparr>),
      localEnergyMinimizer = (\<lambda>sim. Inr (sim_context sim)),
      integratorStep = (\<lambda>sim n. Inr (if list_ex is_barostat (forces (sim_system sim))
                                       then (sim_context sim)\<lparr>st_box :=
                                              (case st_box (sim_context sim) of
                                                 (a, b, c) \<Rightarrow> (a + 1, b + 1, c + 1))\<rparr>
                                       else sim_context sim)),
      periodicWrap = (\<lambda>st. st_positions st),
      validBox = (\<lambda>box. True),
      openForWriting = (\<lambda>file. Inr ()),
      parseTopology = (\<lambda>file. Inr water_atoms),
      nglview = (\<lambda>f. Inr ()),
      pairDistance = (\<lambda>box p q. of_int \<bar>p - q\<bar>),
      boxVolume = (\<lambda>(a, b, c). of_int (a * b * c)),
      shellVolume = (\<lambda>lo hi. hi ^ 3 - lo ^ 3),
      pyplot = (\<lambda>f. Inr ())\<rparr>"

text \<open>The system of the sample world once the barostat is added.\<close>

definition sample_system :: system where
  "sample_system = \<lparr>numParticles = 6,
     forces = [ForceFieldTerm ''NonbondedForce'', MonteCarloBarostat 1 300]\<rparr>"

text \<open>The same world with a parameter file the force field rejects.\<close>

definition failing_world :: "int world" where
  "failing_world = sample_world\<lparr>createSystem := (\<lambda>p m c k. Inl (PythonException ''ValueError''))\<rparr>"

text \<open>A universe of one frame over the sample topology.\<close>

definition sample_universe :: "int universe" where
  "sample_universe = \<lparr>u_atoms = water_atoms,
                       u_trajectory = [([0, 1, 2, 10, 11, 12], (30, 30, 30))]\<rparr>"

text \<open>The calls of a completed run of the sample world, cell by cell.\<close>

definition load_log :: "event list" where
  "load_log =
     [Call Setup 40 ''app.AmberPrmtopFile'' None,
      Call Setup 41 ''app.AmberInpcrdFile'' None,
      Call Setup 45 ''mm.Platform.getPlatformByName(CUDA)''
        (Some (OpenMMException ''no such platform'')),
      Call Setup 48 ''mm.Platform.getPlatformByName(Reference)'' None]"

definition equilibrate_log :: "event list" where
  "equilibrate_log =
     [Call Setup 58 ''prmtop.createSystem'' None,
      Call Equilibration 67 ''app.Simulation'' None,
      Call Equilibration 68 ''simulationNPT.context.setPositions'' None,
      Call Equilibration 71 ''simulationNPT.context.setPeriodicBoxVectors'' None,
      Call Equilibration 73 ''simulationNPT.minimizeEnergy'' None,
      Call Equilibration 74 ''app.StateDataReporter(water/npt.log)'' None,
      Call Equilibration 75 ''simulationNPT.step(50000)'' None,
      Call Equilibration 79 ''simulationNPT.context.getState'' None,
      Call Equilibration 80 ''state_eq.getPositions'' None,
      Call Equilibration 81 ''state_eq.getVelocities'' None,
      Call Equilibration 82 ''state_eq.getPeriodicBoxVectors'' None]"

definition production_log :: "event list" where
  "production_log =
     [Call Production 93 ''app.Simulation'' None,
      Call Production 96 ''simulationProd.context.setPositions'' None,
      Call Production 97 ''simulationProd.context.setVelocities'' None,
      Call Production 100 ''simulationProd.context.setPeriodicBoxVectors'' None,
      Call Production 103 ''app.DCDReporter(water/production.dcd)'' None,
      Call Production 104 ''app.StateDataReporter(water/production.log)'' None,
      Call Production 107 ''simulationProd.step(500000)'' None]"

definition analysis_log :: "event list" where
  "analysis_log =
     [Call Analysis 143 ''mda.Universe'' None,
      Call Analysis 145 ''nv.show_mdanalysis'' None,
      Call Analysis 148 ''view.clear_representations'' None,
      Call Analysis 151 ''view.add_representation'' None,
      Call Analysis 154 ''view.center'' None,
      Call Analysis 176 ''u.select_atoms(element O)'' None,
      Call Analysis 177 ''u.select_atoms(element H)'' None,
      Call Analysis 180 ''rdf.InterRDF(oxygen_atoms, oxygen_atoms)'' None,
      Call Analysis 181 ''rdf_OO.run'' None,
      Call Analysis 184 ''rdf.InterRDF(oxygen_atoms, hydrogen_atoms)'' None,
      Call Analysis 185 ''rdf_OH.run'' None]"

definition plot_log :: "event list" where
  "plot_log =
     [Call Plotting 197 ''plt.figure'' None,
      Call Plotting 200 ''plt.subplot(1, 2, 1)'' None,
      Call Plotting 201 ''plt.plot(rdf_OO.results.bins, rdf_OO.results.rdf)'' None,
      Call Plotting 202 ''plt.title'' None,
      Call Plotting 203 ''plt.xlabel'' None,
      Call Plotting 204 ''plt.ylabel'' None,
      Call Plotting 205 ''plt.grid'' None,
      Call Plotting 208 ''plt.subplot(1, 2, 2)'' None,
      Call Plotting 209 ''plt.plot(rdf_OH.results.bins, rdf_OH.results.rdf)'' None,
      Call Plotting 210 ''plt.title'' None,
      Call Plotting 211 ''plt.xlabel'' None,
      Call Plotting 212 ''plt.ylabel'' None,
      Call Plotting 213 ''plt.grid'' None,
      Call Plotting 215 ''plt.tight_layout'' None]"

section \<open>The stepping loop\<close>

lemma scan_reports_le_elem:
  "k \<in> set ks \<Longrightarrow> 0 < k \<Longrightarrow> fst (scan_reports (n, b) ks) \<le> k"
proof (induction ks arbitrary: n b)
  case Nil
  then show ?case by simp
next
  case (Cons a ks)
  show ?case
  proof (cases "0 < a \<and> a \<le> n")
    case True
    then have eq: "scan_reports (n, b) (a # ks) = scan_reports (a, True) ks" by simp
    show ?thesis
    proof (cases "k = a")
      case True
      then show ?thesis using eq scan_reports_le [of a True ks] by simp
    next
      case False
      with Cons.prems have "k \<in> set ks" by simp
      then show ?thesis using eq Cons.IH [of a True] Cons.prems(2) by simp
    qed
  next
    case False
    then have eq: "scan_reports (n, b) (a # ks) = scan_reports (n, b) ks" by auto
    show ?thesis
    proof (cases "k = a")
      case True
      with False Cons.prems(2) have "n < k" by simp
      then show ?thesis using eq scan_reports_le [of n b ks] by simp
    next
      case False
      with Cons.prems have "k \<in> set ks" by simp
      then show ?thesis using eq Cons.IH [of n b] Cons.prems(2) by simp
    qed
  qed
qed

lemma scan_reports_any:
  "k \<in> set ks \<Longrightarrow> 0 < k \<Longrightarrow> k \<le> n \<Longrightarrow> snd (scan_reports (n, b) ks)"
proof (induction ks arbitrary: n b)
  case Nil
  then show ?case by simp
next
  case (Cons a ks)
  have sticky: "\<And>m js. snd (scan_reports (m, True) js)"
  proof -
    fix m :: nat and js
    show "snd (scan_reports (m, True) js)"
      by (induction js arbitrary: m) auto
  qed
  show ?case
  proof (cases "0 < a \<and> a \<le> n")
    case True
    then show ?thesis using sticky by simp
  next
    case False
    then have eq: "scan_reports (n, b) (a # ks) = scan_reports (n, b) ks" by auto
    from False Cons.prems have "k \<in> set ks" by auto
    then show ?thesis using eq Cons.IH [of n b] Cons.prems by simp
  qed
qed

lemma zip_map_same: "zip xs (map f xs) = map (\<lambda>x. (x, f x)) xs"
  by (induction xs) auto

lemma advance_result:
  assumes adv: "advance w e sim = Inr sim'" and lt: "currentStep sim < e"
  shows "\<exists>ns. 0 < ns \<and> currentStep sim' = currentStep sim + ns \<and> currentStep sim + ns \<le> e \<and>
           (\<forall>r \<in> set (sim_reporters sim). 0 < reportInterval r \<and> ns \<le> describeNextReport r (currentStep sim)) \<and>
           sim_reporters sim' =
             map (\<lambda>r. if describeNextReport r (currentStep sim) = ns
                       then r\<lparr>rep_written := rep_written r @ [(currentStep sim + ns, sim_context sim')]\<rparr>
                       else r) (sim_reporters sim) \<and>
           sim_system sim' = sim_system sim \<and> sim_topology sim' = sim_topology sim \<and>
           sim_platform sim' = sim_platform sim \<and>
           sim_platformProperties sim' = sim_platformProperties sim \<and>
           sim_integrator sim' = sim_integrator sim \<and>
           integratorStep w sim ns = Inr (sim_context sim')"
proof -
  let ?c = "currentStep sim"
  let ?nr = "map (\<lambda>r. describeNextReport r ?c) (sim_reporters sim)"
  let ?sc = "scan_reports (e - ?c, False) ?nr"
  let ?ns = "fst ?sc"
  from adv have nz: "\<not> list_ex (\<lambda>r. reportInterval r = 0) (sim_reporters sim)"
    by (auto simp: advance_def split: if_splits)
  then have pos: "\<forall>r \<in> set (sim_reporters sim). 0 < reportInterval r"
    by (auto simp: list_ex_iff)
  have dpos: "\<forall>r \<in> set (sim_reporters sim). 0 < describeNextReport r ?c"
    using pos by (auto simp: describeNextReport_def)
  from adv nz obtain st where st: "integratorStep w sim ?ns = Inr st"
    by (auto simp: advance_def Let_def split: sum.splits prod.splits)
  from adv nz st have sim': "sim' = (let s1 = sim\<lparr>sim_context := st, currentStep := ?c + ?ns\<rparr>
       in if snd ?sc then s1\<lparr>sim_reporters := generate_reports ?ns s1 ?nr\<rparr> else s1)"
    by (auto simp: advance_def Let_def split: sum.splits prod.splits)
  have nspos: "0 < ?ns" using lt by (intro scan_reports_pos) simp
  have nsle: "?ns \<le> e - ?c" by (rule scan_reports_le)
  have le_each: "\<forall>r \<in> set (sim_reporters sim). ?ns \<le> describeNextReport r ?c"
  proof
    fix r assume r: "r \<in> set (sim_reporters sim)"
    then have "describeNextReport r ?c \<in> set ?nr" by simp
    moreover have "0 < describeNextReport r ?c" using dpos r by simp
    ultimately show "?ns \<le> describeNextReport r ?c" by (rule scan_reports_le_elem)
  qed
  have ctx: "sim_context sim' = st" using sim' by (simp add: Let_def)
  have reps: "sim_reporters sim' =
             map (\<lambda>r. if describeNextReport r ?c = ?ns
                       then r\<lparr>rep_written := rep_written r @ [(?c + ?ns, st)]\<rparr>
                       else r) (sim_reporters sim)"
  proof (cases "snd ?sc")
    case True
    then show ?thesis using sim'
      by (simp add: Let_def generate_reports_def zip_map_same o_def)
  next
    case False
    have "\<forall>r \<in> set (sim_reporters sim). describeNextReport r ?c \<noteq> ?ns"
    proof
      fix r assume r: "r \<in> set (sim_reporters sim)"
      show "describeNextReport r ?c \<noteq> ?ns"
      proof
        assume eq: "describeNextReport r ?c = ?ns"
        have "describeNextReport r ?c \<in> set ?nr" using r by simp
        moreover have "0 < describeNextReport r ?c" using dpos r by simp
        moreover have "describeNextReport r ?c \<le> e - ?c" using eq nsle by simp
        ultimately have "snd ?sc" by (rule scan_reports_any)
        with False show False by simp
      qed
    qed
    then have "map (\<lambda>r. if describeNextReport r ?c = ?ns
                       then r\<lparr>rep_written := rep_written r @ [(?c + ?ns, st)]\<rparr>
                       else r) (sim_reporters sim) = sim_reporters sim"
      by (simp add: map_idI)
    then show ?thesis using sim' False by (simp add: Let_def)
  qed
  show ?thesis
    apply (rule exI [of _ ?ns])
    using nspos nsle lt pos le_each reps ctx st sim'
    by (auto simp: Let_def)
qed


lemma report_steps_empty: "e \<le> c \<Longrightarrow> report_steps k c e = []"
  by (simp add: report_steps_def)

lemma report_steps_append:
  assumes "c \<le> m" and "m \<le> e"
  shows "report_steps k c e = report_steps k c m @ report_steps k m e"
proof -
  have "[Suc c ..< Suc m + (e - m)] = [Suc c ..< Suc m] @ [Suc m ..< Suc m + (e - m)]"
    using assms(1) by (intro upt_add_eq_append) simp
  moreover have "Suc m + (e - m) = Suc e" using assms(2) by simp
  ultimately have "[Suc c ..< Suc e] = [Suc c ..< Suc m] @ [Suc m ..< Suc e]" by simp
  then show ?thesis by (simp add: report_steps_def)
qed

lemma next_multiple:
  assumes k: "0 < (k::nat)" and lo: "c < s" and hi: "s \<le> c + (k - c mod k)"
  shows "s mod k = 0 \<longleftrightarrow> s = c + (k - c mod k)"
proof
  have lt: "c mod k < k" using k by simp
  have "c + (k - c mod k) = k * (c div k) + c mod k + (k - c mod k)"
    by (simp only: mult_div_mod_eq)
  also have "\<dots> = k * (c div k) + (c mod k + (k - c mod k))"
    by (simp only: add.assoc)
  also have "c mod k + (k - c mod k) = k" using lt by simp
  finally have top: "c + (k - c mod k) = k * Suc (c div k)" by simp
  {
    assume "s mod k = 0"
    then have "k dvd s" by (simp add: mod_eq_0_iff_dvd)
    then obtain t where t: "s = t * k" by (auto simp: dvd_def mult.commute)
    from lo t have "c < t * k" by simp
    then have "c div k < t" using k by (simp add: div_less_iff_less_mult)
    moreover from hi top t have "t * k \<le> Suc (c div k) * k" by (simp add: mult.commute)
    then have "t \<le> Suc (c div k)" using k unfolding mult_le_cancel2 by simp
    ultimately have "t = Suc (c div k)" by simp
    with t top show "s = c + (k - c mod k)" by (simp add: mult.commute)
  }
  {
    assume "s = c + (k - c mod k)"
    with top show "s mod k = 0" by simp
  }
qed

lemma report_steps_next:
  assumes k: "0 < k" and ns: "0 < ns" and le: "ns \<le> k - c mod k"
  shows "report_steps k c (c + ns) = (if k - c mod k = ns then [c + ns] else [])"
proof -
  have cong: "filter (\<lambda>s. s mod k = 0) [Suc c ..< Suc (c + ns)]
            = filter (\<lambda>s. s = c + (k - c mod k)) [Suc c ..< Suc (c + ns)]"
  proof (rule filter_cong [OF refl])
    fix s assume "s \<in> set [Suc c ..< Suc (c + ns)]"
    then have "c < s" and "s \<le> c + (k - c mod k)" using le by auto
    with k show "(s mod k = 0) = (s = c + (k - c mod k))" by (intro next_multiple)
  qed
  have split: "[Suc c ..< Suc (c + ns)] = [Suc c ..< c + ns] @ [c + ns]"
    using ns by (simp add: upt_Suc_append)
  show ?thesis
  proof (cases "k - c mod k = ns")
    case True
    have "filter (\<lambda>s. s = c + ns) [Suc c ..< c + ns] = []"
      by (auto simp: filter_empty_conv)
    then show ?thesis using True cong split by (simp add: report_steps_def)
  next
    case False
    with le have "ns < k - c mod k" by simp
    then have "filter (\<lambda>s. s = c + (k - c mod k)) [Suc c ..< Suc (c + ns)] = []"
      by (auto simp: filter_empty_conv)
    then show ?thesis using False cong by (simp add: report_steps_def)
  qed
qed

lemma report_steps_multiples:
  assumes "0 < k"
  shows "report_steps k 0 (k * n) = map (\<lambda>i. k * i) [1 ..< Suc n]"
proof (induction n)
  case 0
  show ?case by (simp add: report_steps_def)
next
  case (Suc n)
  have "report_steps k 0 (k * Suc n) = report_steps k 0 (k * n) @ report_steps k (k * n) (k * Suc n)"
    by (intro report_steps_append) simp_all
  moreover have "report_steps k (k * n) (k * Suc n) = [k * Suc n]"
    using report_steps_next [of k k "k * n"] assms by (simp add: add.commute)
  moreover have "[1 ..< Suc (Suc n)] = [1 ..< Suc n] @ [Suc n]" by simp
  ultimately show ?case using Suc.IH by (simp del: upt_Suc mult_Suc_right)
qed

lemma simulate_fields:
  "simulate w e sim = Inr sim' \<Longrightarrow>
     sim_system sim' = sim_system sim \<and> sim_topology sim' = sim_topology sim \<and>
     sim_platform sim' = sim_platform sim \<and>
     sim_platformProperties sim' = sim_platformProperties sim \<and>
     sim_integrator sim' = sim_integrator sim"
proof (induction w e sim rule: simulate.induct)
  case (1 w e sim)
  show ?case
  proof (cases "currentStep sim < e")
    case False
    with "1.prems" show ?thesis by (simp add: simulate.simps)
  next
    case True
    with "1.prems" obtain s1 where adv: "advance w e sim = Inr s1" and rest: "simulate w e s1 = Inr sim'"
      by (auto simp: simulate.simps [of w e sim] split: sum.splits)
    from advance_result [OF adv True] have "sim_system s1 = sim_system sim \<and>
       sim_topology s1 = sim_topology sim \<and> sim_platform s1 = sim_platform sim \<and>
       sim_platformProperties s1 = sim_platformProperties sim \<and>
       sim_integrator s1 = sim_integrator sim" by blast
    with "1.IH" [OF True adv rest] show ?thesis by simp
  qed
qed

lemma simulate_reporters:
  "simulate w e sim = Inr sim' \<Longrightarrow>
     list_all2 (same_reporter (currentStep sim) e) (sim_reporters sim) (sim_reporters sim')"
proof (induction w e sim rule: simulate.induct)
  case (1 w e sim)
  show ?case
  proof (cases "currentStep sim < e")
    case False
    with "1.prems" have "sim' = sim" by (simp add: simulate.simps)
    moreover have "report_steps k (currentStep sim) e = []" for k
      using False by (simp add: report_steps_empty)
    ultimately show ?thesis by (simp add: list_all2_same same_reporter_def)
  next
    case True
    let ?c = "currentStep sim"
    from True "1.prems" obtain s1 where adv: "advance w e sim = Inr s1" and rest: "simulate w e s1 = Inr sim'"
      by (auto simp: simulate.simps [of w e sim] split: sum.splits)
    from advance_result [OF adv True] obtain ns where ns: "0 < ns" "currentStep s1 = ?c + ns" "?c + ns \<le> e"
      and each: "\<forall>r \<in> set (sim_reporters sim). 0 < reportInterval r \<and> ns \<le> describeNextReport r ?c"
      and reps: "sim_reporters s1 =
             map (\<lambda>r. if describeNextReport r ?c = ns
                       then r\<lparr>rep_written := rep_written r @ [(?c + ns, sim_context s1)]\<rparr>
                       else r) (sim_reporters sim)"
      by blast
    have first: "list_all2 (same_reporter ?c (?c + ns)) (sim_reporters sim) (sim_reporters s1)"
      unfolding reps list_all2_map2 list_all2_same
    proof
      fix r assume "r \<in> set (sim_reporters sim)"
      with each have k: "0 < reportInterval r" and le: "ns \<le> reportInterval r - ?c mod reportInterval r"
        by (auto simp: describeNextReport_def)
      from report_steps_next [OF k ns(1) le]
      show "same_reporter ?c (?c + ns) r (if describeNextReport r ?c = ns
                       then r\<lparr>rep_written := rep_written r @ [(?c + ns, sim_context s1)]\<rparr>
                       else r)"
        by (simp add: same_reporter_def describeNextReport_def)
    qed
    have second: "list_all2 (same_reporter (?c + ns) e) (sim_reporters s1) (sim_reporters sim')"
      using "1.IH" [OF True adv rest] ns(2) by simp
    show ?thesis
    proof (rule list_all2_trans [OF _ first second])
      fix a b c :: "'a reporter"
      assume "same_reporter ?c (?c + ns) a b" and "same_reporter (?c + ns) e b c"
      then show "same_reporter ?c e a c"
        using report_steps_append [of ?c "?c + ns" e "reportInterval a"] ns(3)
        by (simp add: same_reporter_def)
    qed
  qed
qed

lemma advance_succeeds:
  assumes "\<forall>r \<in> set (sim_reporters sim). 0 < reportInterval r"
    and "\<forall>n. \<exists>st. integratorStep w sim n = Inr st"
  shows "\<exists>s1. advance w e sim = Inr s1"
proof -
  have nz: "\<not> list_ex (\<lambda>r. reportInterval r = 0) (sim_reporters sim)"
    using assms(1) by (auto simp: list_ex_iff)
  obtain ns b where sc: "scan_reports (e - currentStep sim, False)
      (map (\<lambda>r. describeNextReport r (currentStep sim)) (sim_reporters sim)) = (ns, b)"
    by (cases "scan_reports (e - currentStep sim, False)
      (map (\<lambda>r. describeNextReport r (currentStep sim)) (sim_reporters sim))") auto
  from assms(2) obtain st where "integratorStep w sim ns = Inr st" by blast
  with nz sc show ?thesis by (simp add: advance_def Let_def)
qed

lemma simulate_completes:
  "\<forall>s n. \<exists>st. integratorStep w s n = Inr st \<Longrightarrow>
   \<forall>r \<in> set (sim_reporters sim). 0 < reportInterval r \<Longrightarrow>
   \<exists>sim'. simulate w e sim = Inr sim'"
proof (induction w e sim rule: simulate.induct)
  case (1 w e sim)
  show ?case
  proof (cases "currentStep sim < e")
    case False
    then show ?thesis by (simp add: simulate.simps)
  next
    case True
    from advance_succeeds [of sim w e] "1.prems" obtain s1 where adv: "advance w e sim = Inr s1"
      by blast
    from advance_result [OF adv True] "1.prems"(2)
    have "\<forall>r \<in> set (sim_reporters s1). 0 < reportInterval r" by auto
    from "1.IH" [OF True adv "1.prems"(1) this] obtain sim' where "simulate w e s1 = Inr sim'"
      by blast
    with adv True show ?thesis by (simp add: simulate.simps [of w e sim])
  qed
qed

lemma step_from_zero: "currentStep sim = 0 \<Longrightarrow> step w sim n = simulate w n sim"
  by (simp add: step_def)

lemma step_completes:
  "\<forall>s n. \<exists>st. integratorStep w s n = Inr st \<Longrightarrow>
   \<forall>r \<in> set (sim_reporters sim). 0 < reportInterval r \<Longrightarrow>
   \<exists>sim'. step w sim n = Inr sim'"
  unfolding step_def by (rule simulate_completes)

lemma engine_newContext:
  "engine_ok w \<Longrightarrow> newContext w sys i p pr = Inr st \<Longrightarrow> ctx_ok w sys st"
  unfolding engine_ok_def by blast

lemma engine_minimize:
  "engine_ok w \<Longrightarrow> localEnergyMinimizer w sim = Inr st \<Longrightarrow> sim_system sim = sys \<Longrightarrow>
     ctx_ok w sys (sim_context sim) \<Longrightarrow> ctx_ok w sys st"
  unfolding engine_ok_def by blast

lemma engine_integrate:
  "engine_ok w \<Longrightarrow> integratorStep w sim n = Inr st \<Longrightarrow> sim_system sim = sys \<Longrightarrow>
     ctx_ok w sys (sim_context sim) \<Longrightarrow> ctx_ok w sys st"
  unfolding engine_ok_def by blast

lemma engine_wrap: "engine_ok w \<Longrightarrow> length (periodicWrap w st) = length (st_positions st)"
  unfolding engine_ok_def by blast

lemma simulate_ctx_ok:
  "simulate w e sim = Inr sim' \<Longrightarrow> engine_ok w \<Longrightarrow> ctx_ok w (sim_system sim) (sim_context sim) \<Longrightarrow>
     ctx_ok w (sim_system sim') (sim_context sim')"
proof (induction w e sim rule: simulate.induct)
  case (1 w e sim)
  show ?case
  proof (cases "currentStep sim < e")
    case False
    with "1.prems" show ?thesis by (simp add: simulate.simps)
  next
    case True
    with "1.prems" obtain s1 where adv: "advance w e sim = Inr s1" and rest: "simulate w e s1 = Inr sim'"
      by (auto simp: simulate.simps [of w e sim] split: sum.splits)
    from advance_result [OF adv True] obtain ns where
      sys: "sim_system s1 = sim_system sim" and st: "integratorStep w sim ns = Inr (sim_context s1)"
      by blast
    have "ctx_ok w (sim_system sim) (sim_context s1)"
      using engine_integrate [OF "1.prems"(2) st refl "1.prems"(3)] .
    then have "ctx_ok w (sim_system s1) (sim_context s1)" using sys by simp
    from "1.IH" [OF True adv rest "1.prems"(2) this] show ?thesis .
  qed
qed

lemma simulate_written_ok:
  "simulate w e sim = Inr sim' \<Longrightarrow> engine_ok w \<Longrightarrow>
     ctx_ok w (sim_system sim) (sim_context sim) \<Longrightarrow> written_ok w (sim_system sim) sim \<Longrightarrow>
     written_ok w (sim_system sim) sim'"
proof (induction w e sim rule: simulate.induct)
  case (1 w e sim)
  show ?case
  proof (cases "currentStep sim < e")
    case False
    with "1.prems" show ?thesis by (simp add: simulate.simps)
  next
    case True
    with "1.prems" obtain s1 where adv: "advance w e sim = Inr s1" and rest: "simulate w e s1 = Inr sim'"
      by (auto simp: simulate.simps [of w e sim] split: sum.splits)
    from advance_result [OF adv True] obtain ns where
      sys: "sim_system s1 = sim_system sim" and st: "integratorStep w sim ns = Inr (sim_context s1)"
      and reps: "sim_reporters s1 =
             map (\<lambda>r. if describeNextReport r (currentStep sim) = ns
                       then r\<lparr>rep_written := rep_written r @ [(currentStep sim + ns, sim_context s1)]\<rparr>
                       else r) (sim_reporters sim)"
      by blast
    have ok1: "ctx_ok w (sim_system sim) (sim_context s1)"
      using engine_integrate [OF "1.prems"(2) st refl "1.prems"(3)] .
    have w1: "written_ok w (sim_system sim) s1"
      using "1.prems"(4) ok1 unfolding written_ok_def reps by (auto; force)
    from "1.IH" [OF True adv rest "1.prems"(2)] ok1 w1 sys show ?thesis by simp
  qed
qed

lemma trajectory_file_ok:
  assumes "engine_ok w" and "written_ok w sys sim"
  shows "\<not> list_ex (\<lambda>(ps, box). length ps \<noteq> numParticles sys) (trajectory_file w sim file)"
  using assms
  by (fastforce simp: list_ex_iff trajectory_file_def written_ok_def ctx_ok_def engine_wrap
        split: if_splits)


lemma advance_platform_free:
  "advance (w\<lparr>getPlatformByName := g\<rparr>) e sim = advance w e sim"
  by (simp add: advance_def)

lemma simulate_platform_free:
  "simulate (w\<lparr>getPlatformByName := g\<rparr>) e sim = simulate w e sim"
proof (induction w e sim rule: simulate.induct)
  case (1 w e sim)
  show ?case
  proof (cases "currentStep sim < e")
    case False
    then show ?thesis
      by (simp add: simulate.simps [of w e sim] simulate.simps [of "w\<lparr>getPlatformByName := g\<rparr>" e sim])
  next
    case True
    show ?thesis
    proof (cases "advance w e sim")
      case (Inl err)
      with True show ?thesis
        by (simp add: simulate.simps [of w e sim] simulate.simps [of "w\<lparr>getPlatformByName := g\<rparr>" e sim]
              advance_platform_free)
    next
      case (Inr s1)
      with True "1.IH" [OF True Inr] show ?thesis
        by (simp add: simulate.simps [of w e sim] simulate.simps [of "w\<lparr>getPlatformByName := g\<rparr>" e sim]
              advance_platform_free)
    qed
  qed
qed

section \<open>The log of the calls\<close>

lemma unhandled_errors_simps:
  "unhandled_errors [] = []"
  "unhandled_errors (xs @ ys) = unhandled_errors xs @ unhandled_errors ys"
  "unhandled_errors [Call s n src None] = []"
  by (simp_all add: unhandled_errors_def map_filter_def)

lemma unhandled_errors_raise:
  "n \<noteq> 45 \<Longrightarrow> unhandled_errors [Call s n src (Some e)] = [e]"
  by (cases e) (simp_all add: unhandled_errors_def map_filter_def)

lemma not_handled: "n \<noteq> 45 \<Longrightarrow> \<not> handled (Call s n src r)"
  by (cases "(Call s n src r)" rule: handled.cases) auto

lemma runs_return: "a \<le> b \<Longrightarrow> runs a b (returnX x)"
  by (simp add: runs_def returnX_def unhandled_errors_simps outcome_errors_def ends_with_def)

lemma runs_call: "a < n \<Longrightarrow> n \<noteq> 45 \<Longrightarrow> runs a n (call s n src r)"
  by (cases r)
     (simp_all add: runs_def call_def raised_def unhandled_errors_simps unhandled_errors_raise
        outcome_errors_def ends_with_def not_handled)

lemma runs_le: "runs a b m \<Longrightarrow> a \<le> b"
  unfolding runs_def by blast

lemma runs_par: "runs a b m \<Longrightarrow> m l0 = (fst (m []), l0 @ snd (m []))"
  unfolding runs_def by blast

lemma runs_sorted: "runs a b m \<Longrightarrow> sorted_wrt (<) (map ev_line (snd (m [])))"
  unfolding runs_def by blast

lemma runs_span: "runs a b m \<Longrightarrow> ev \<in> set (snd (m [])) \<Longrightarrow> a < ev_line ev \<and> ev_line ev \<le> b"
  unfolding runs_def by blast

lemma runs_unhandled: "runs a b m \<Longrightarrow> unhandled_errors (snd (m [])) = outcome_errors (fst (m []))"
  unfolding runs_def by blast

lemma runs_ends: "runs a b m \<Longrightarrow> ends_with (fst (m [])) (snd (m []))"
  unfolding runs_def by blast

lemma runsI:
  assumes "a \<le> b" and "\<And>l0. m l0 = (out, l0 @ new)"
    and "sorted_wrt (<) (map ev_line new)"
    and "\<And>ev. ev \<in> set new \<Longrightarrow> a < ev_line ev \<and> ev_line ev \<le> b"
    and "unhandled_errors new = outcome_errors out"
    and "ends_with out new"
  shows "runs a b m"
proof -
  have "m [] = (out, new)" using assms(2) [of "[]"] by simp
  then have fs: "fst (m []) = out" "snd (m []) = new" by simp_all
  show ?thesis unfolding runs_def fs using assms by blast
qed

lemma runs_bind:
  assumes m: "runs a b m" and f: "\<And>x. runs b d (f x)"
  shows "runs a d (bindX m f)"
proof (cases "fst (m [])")
  case (Inl e)
  let ?n1 = "snd (m [])"
  have ab: "a \<le> b" using m by (rule runs_le)
  have bd: "b \<le> d" using f by (rule runs_le)
  have par: "m l0 = (Inl e, l0 @ ?n1)" for l0
    using runs_par [OF m, of l0] Inl by simp
  show ?thesis
  proof (rule runsI [where out = "Inl e" and new = ?n1])
    show "a \<le> d" using ab bd by simp
    show "bindX m f l0 = (Inl e, l0 @ ?n1)" for l0
      using par [of l0] by (simp add: bindX_def)
    show "sorted_wrt (<) (map ev_line ?n1)" using m by (rule runs_sorted)
    show "a < ev_line ev \<and> ev_line ev \<le> d" if "ev \<in> set ?n1" for ev
      using runs_span [OF m that] bd by simp
    show "unhandled_errors ?n1 = outcome_errors (Inl e :: error + 'c)"
      using runs_unhandled [OF m] Inl by (simp add: outcome_errors_def)
    show "ends_with (Inl e :: error + 'c) ?n1"
      using runs_ends [OF m] Inl by (simp add: ends_with_def)
  qed
next
  case (Inr x)
  let ?n1 = "snd (m [])" and ?n2 = "snd (f x [])"
  have ab: "a \<le> b" using m by (rule runs_le)
  have bd: "b \<le> d" using f by (rule runs_le)
  have par: "m l0 = (Inr x, l0 @ ?n1)" for l0
    using runs_par [OF m, of l0] Inr by simp
  have parf: "f x l0 = (fst (f x []), l0 @ ?n2)" for l0
    using f [of x] by (rule runs_par)
  have u1: "unhandled_errors ?n1 = []"
    using runs_unhandled [OF m] Inr by (simp add: outcome_errors_def)
  show ?thesis
  proof (rule runsI [where out = "fst (f x [])" and new = "?n1 @ ?n2"])
    show "a \<le> d" using ab bd by simp
    show "bindX m f l0 = (fst (f x []), l0 @ ?n1 @ ?n2)" for l0
      using parf [of "l0 @ ?n1"] par [of l0] by (simp add: bindX_def)
    show "sorted_wrt (<) (map ev_line (?n1 @ ?n2))"
      using runs_sorted [OF m] runs_sorted [OF f, of x] runs_span [OF m] runs_span [OF f, of _ x]
      by (fastforce simp: sorted_wrt_append)
    show "a < ev_line ev \<and> ev_line ev \<le> d" if "ev \<in> set (?n1 @ ?n2)" for ev
      using that runs_span [OF m, of ev] runs_span [OF f, of ev x] ab bd by fastforce
    show "unhandled_errors (?n1 @ ?n2) = outcome_errors (fst (f x []))"
      using u1 runs_unhandled [OF f, of x] by (simp add: unhandled_errors_simps)
    show "ends_with (fst (f x [])) (?n1 @ ?n2)"
      using runs_ends [OF f, of x] by (auto simp: ends_with_def split: sum.splits)
  qed
qed

lemma runs_case_prod: "(\<And>x y. runs a b (f x y)) \<Longrightarrow> runs a b (case_prod f p)"
  by (cases p) simp

lemma runs_select_platform: "a < 45 \<Longrightarrow> runs a 48 (select_platform w)"
proof (cases "getPlatformByName w ''CUDA''")
  case (Inr p)
  assume "a < 45"
  with Inr show ?thesis
    by (simp add: runs_def select_platform_def try_except_OpenMM_def bindX_def call_def
          returnX_def raised_def unhandled_errors_simps outcome_errors_def ends_with_def)
next
  case (Inl e)
  assume a: "a < 45"
  show ?thesis
  proof (cases e)
    case (PythonException msg)
    with Inl a show ?thesis
      by (simp add: runs_def select_platform_def try_except_OpenMM_def bindX_def call_def
            returnX_def raised_def unhandled_errors_def map_filter_def outcome_errors_def ends_with_def)
  next
    case (OpenMMException msg)
    show ?thesis
    proof (cases "getPlatformByName w ''Reference''")
      case (Inr p)
      with Inl OpenMMException a show ?thesis
        by (simp add: runs_def select_platform_def try_except_OpenMM_def bindX_def call_def
            returnX_def raised_def unhandled_errors_def map_filter_def outcome_errors_def ends_with_def)
    next
      case (Inl e2)
      with \<open>getPlatformByName w ''CUDA'' = Inl e\<close> OpenMMException a show ?thesis
        by (cases e2)
           (simp_all add: runs_def select_platform_def try_except_OpenMM_def bindX_def call_def
            returnX_def raised_def unhandled_errors_def map_filter_def outcome_errors_def ends_with_def)
    qed
  qed
qed

lemmas runs_intros = runs_bind runs_call runs_case_prod runs_select_platform runs_return

lemma runs_cell_load: "a < 40 \<Longrightarrow> runs a 48 (cell_load w)"
  unfolding cell_load_def
  by (rule runs_intros | simp)+

lemma runs_box_option:
  "runs 68 71 (case bx of
              None \<Rightarrow> returnX s
            | Some box \<Rightarrow> call Equilibration 71 ''simulationNPT.context.setPeriodicBoxVectors''
                            (setPeriodicBoxVectors w s box))"
  by (cases bx) (simp_all add: runs_return runs_call)

lemma runs_equilibration_setup: "a < 58 \<Longrightarrow> runs a 74 (equilibration_setup w prmtop inpcrd)"
  unfolding equilibration_setup_def Let_def
  by (rule runs_intros runs_box_option | simp)+

lemma runs_equilibrated_state: "a < 79 \<Longrightarrow> runs a 82 (equilibrated_state w sim)"
  unfolding equilibrated_state_def
  by (rule runs_intros | simp)+

lemma runs_cell_equilibrate: "a < 58 \<Longrightarrow> runs a 82 (cell_equilibrate w prmtop inpcrd)"
  unfolding cell_equilibrate_def
  by (rule runs_intros runs_equilibration_setup runs_equilibrated_state | simp)+

lemma runs_production_context: "a < 93 \<Longrightarrow> runs a 100 (production_context w prmtop sys p v b)"
  unfolding production_context_def Let_def
  by (rule runs_intros | simp)+

lemma runs_production_reporters: "a < 103 \<Longrightarrow> runs a 104 (production_reporters w sim)"
  unfolding production_reporters_def
  by (rule runs_intros | simp)+

lemma runs_cell_production: "a < 93 \<Longrightarrow> runs a 107 (cell_production w prmtop sys p v b)"
  unfolding cell_production_def
  by (rule runs_intros runs_production_context runs_production_reporters | simp)+

lemma runs_cell_visualize: "a < 143 \<Longrightarrow> runs a 154 (cell_visualize w sim)"
  unfolding cell_visualize_def
  by (rule runs_intros | simp)+

lemma runs_cell_analysis: "a < 176 \<Longrightarrow> runs a 185 (cell_analysis w u)"
  unfolding cell_analysis_def
  by (rule runs_intros | simp)+

lemma runs_cell_plot: "a < 197 \<Longrightarrow> runs a 215 (cell_plot w oo oh)"
  unfolding cell_plot_def
  by (rule runs_intros | simp)+

lemma runs_cells_after_load: "a < 58 \<Longrightarrow> runs a 215 (cells_after_load w prmtop inpcrd)"
  unfolding cells_after_load_def
  by (rule runs_intros runs_cell_equilibrate runs_cell_production runs_cell_visualize
        runs_cell_analysis runs_cell_plot | simp)+

lemma runs_workflow: "runs 0 215 (workflow w)"
  unfolding workflow_def
  by (rule runs_intros runs_cell_load runs_cells_after_load | simp)+

section \<open>What a completed cell has done\<close>

lemma bindX_InrE:
  assumes "bindX m f l = (Inr y, l')"
  obtains x l1 where "m l = (Inr x, l1)" and "f x l1 = (Inr y, l')"
  using assms by (auto simp: bindX_def split: prod.splits sum.splits)

lemma call_InrE:
  assumes "call s n src r l = (Inr x, l')"
  obtains "r = Inr x" and "l' = l @ [Call s n src None]"
  using assms by (auto simp: call_def raised_def)

lemma returnX_InrE:
  assumes "returnX x l = (Inr y, l')"
  obtains "y = x" and "l' = l"
  using assms by (auto simp: returnX_def)

lemmas exec_elims = bindX_InrE call_InrE returnX_InrE

lemma setPositions_Inr:
  "setPositions sim ps = Inr sim' \<Longrightarrow>
     length ps = numParticles (sim_system sim) \<and>
     sim' = sim\<lparr>sim_context := (sim_context sim)\<lparr>st_positions := ps\<rparr>\<rparr>"
  by (auto simp: setPositions_def split: if_splits)

lemma setVelocities_Inr:
  "setVelocities sim vs = Inr sim' \<Longrightarrow>
     length vs = numParticles (sim_system sim) \<and>
     sim' = sim\<lparr>sim_context := (sim_context sim)\<lparr>st_velocities := vs\<rparr>\<rparr>"
  by (auto simp: setVelocities_def split: if_splits)

lemma setPeriodicBoxVectors_Inr:
  "setPeriodicBoxVectors w sim box = Inr sim' \<Longrightarrow>
     validBox w box \<and> sim' = sim\<lparr>sim_context := (sim_context sim)\<lparr>st_box := box\<rparr>\<rparr>"
  by (auto simp: setPeriodicBoxVectors_def split: if_splits)

lemma minimizeEnergy_Inr:
  "minimizeEnergy w sim = Inr sim' \<Longrightarrow>
     \<exists>st. localEnergyMinimizer w sim = Inr st \<and> sim' = sim\<lparr>sim_context := st\<rparr>"
  by (auto simp: minimizeEnergy_def split: sum.splits)

lemma Simulation_Inr:
  "Simulation w topo sys integ plat props = Inr sim \<Longrightarrow>
     \<exists>st. newContext w sys integ plat props = Inr st \<and>
       sim = \<lparr>sim_topology = topo, sim_system = sys, sim_integrator = integ,
               sim_platform = plat, sim_platformProperties = props,
               sim_context = st, sim_reporters = [], currentStep = 0\<rparr>"
  by (auto simp: Simulation_def split: sum.splits)

lemma equilibration_setup_Inr:
  assumes "equilibration_setup w prmtop inpcrd l0 = (Inr (system, sim), l1)"
  shows "\<exists>system0. createSystem w prmtop PME 1 HBonds = Inr system0 \<and>
           system = addForce system0 (MonteCarloBarostat pressure temperature)"
    and "sim_system sim = system"
    and "sim_topology sim = prm_topology prmtop"
    and "sim_platform sim = None"
    and "sim_platformProperties sim = None"
    and "sim_reporters sim = [new_reporter (StateDataReporter log_flags) ''water/npt.log'' 1000]"
    and "currentStep sim = 0"
  using assms unfolding equilibration_setup_def Let_def
  by (auto elim!: exec_elims dest!: Simulation_Inr setPositions_Inr setPeriodicBoxVectors_Inr
        minimizeEnergy_Inr simp: reporters_append_def split: option.splits)

lemma equilibration_setup_ctx_ok:
  assumes "equilibration_setup w prmtop inpcrd l0 = (Inr (system, sim), l1)" and eng: "engine_ok w"
  shows "ctx_ok w system (sim_context sim)"
  using assms(1) unfolding equilibration_setup_def Let_def
  apply (auto elim!: exec_elims dest!: Simulation_Inr setPositions_Inr setPeriodicBoxVectors_Inr
        minimizeEnergy_Inr simp: reporters_append_def split: option.splits)
   apply (erule engine_minimize [OF eng]; frule engine_newContext [OF eng]; simp add: ctx_ok_def)+
  done

lemma equilibrated_state_Inr:
  assumes "equilibrated_state w sim l0 = (Inr (p, v, b), l1)"
  shows "p = periodicWrap w (sim_context sim)" and "v = st_velocities (sim_context sim)"
    and "b = st_box (sim_context sim)"
  using assms unfolding equilibrated_state_def
  by (auto elim!: exec_elims
        simp: getState_def getPositions_def getVelocities_def getPeriodicBoxVectors_def)

lemma cell_equilibrate_Inr:
  assumes "cell_equilibrate w prmtop inpcrd l0 = (Inr (system, sim, p, v, b), l1)"
  obtains sim0 l where "equilibration_setup w prmtop inpcrd l0 = (Inr (system, sim0), l)"
    and "step w sim0 50000 = Inr sim"
    and "p = periodicWrap w (sim_context sim)" and "v = st_velocities (sim_context sim)"
    and "b = st_box (sim_context sim)"
  using assms unfolding cell_equilibrate_def
  by (auto elim!: exec_elims dest: equilibrated_state_Inr)

lemma production_context_Inr:
  assumes "production_context w prmtop system p v b l0 = (Inr sim, l1)"
  shows "sim_system sim = system" and "sim_topology sim = prm_topology prmtop"
    and "sim_platform sim = None" and "sim_platformProperties sim = None"
    and "sim_reporters sim = []" and "currentStep sim = 0"
    and "sim_context sim = \<lparr>st_positions = p, st_velocities = v, st_box = b\<rparr>"
    and "length p = numParticles system" and "length v = numParticles system" and "validBox w b"
  using assms unfolding production_context_def Let_def
  by (auto elim!: exec_elims dest!: Simulation_Inr setPositions_Inr setVelocities_Inr
        setPeriodicBoxVectors_Inr)

lemma production_reporters_Inr:
  assumes "production_reporters w sim l0 = (Inr sim', l1)"
  shows "sim' = sim\<lparr>sim_reporters := sim_reporters sim @
            [new_reporter DCDReporter ''water/production.dcd'' 1000,
             new_reporter (StateDataReporter log_flags) ''water/production.log'' 1000]\<rparr>"
  using assms unfolding production_reporters_def
  by (auto elim!: exec_elims simp: reporters_append_def)

lemma cell_production_Inr:
  assumes "cell_production w prmtop system p v b l0 = (Inr sim, l1)"
  obtains sim0 l where "production_context w prmtop system p v b l0 = (Inr sim0, l)"
    and "step w (sim0\<lparr>sim_reporters := sim_reporters sim0 @
            [new_reporter DCDReporter ''water/production.dcd'' 1000,
             new_reporter (StateDataReporter log_flags) ''water/production.log'' 1000]\<rparr>) 500000 = Inr sim"
  using assms unfolding cell_production_def
  by (auto elim!: exec_elims dest!: production_reporters_Inr)


lemma barostat_kept:
  assumes eq: "cell_equilibrate w prmtop inpcrd l0 =
                 (Inr (system, simulationNPT, positions_eq, velocities_eq, box_vectors_eq), l1)"
  shows "MonteCarloBarostat pressure temperature \<in> set (forces system)"
    and "sim_system simulationNPT = system"
proof -
  from eq obtain sim0 l where su: "equilibration_setup w prmtop inpcrd l0 = (Inr (system, sim0), l)"
    and st: "step w sim0 50000 = Inr simulationNPT"
    by (rule cell_equilibrate_Inr)
  from equilibration_setup_Inr(1) [OF su]
  show "MonteCarloBarostat pressure temperature \<in> set (forces system)"
    by (auto simp: addForce_def)
  from st simulate_fields [of w _ sim0 simulationNPT] equilibration_setup_Inr(2) [OF su]
  show "sim_system simulationNPT = system"
    by (simp add: step_def)
qed

lemma production_system:
  assumes prod: "cell_production w prmtop system p v b l1 = (Inr simulationProd, l2)"
  shows "sim_system simulationProd = system"
proof -
  from prod obtain sim0 l where ctx: "production_context w prmtop system p v b l1 = (Inr sim0, l)"
    and st: "step w (sim0\<lparr>sim_reporters := sim_reporters sim0 @
            [new_reporter DCDReporter ''water/production.dcd'' 1000,
             new_reporter (StateDataReporter log_flags) ''water/production.log'' 1000]\<rparr>) 500000
          = Inr simulationProd"
    by (rule cell_production_Inr)
  from st simulate_fields [of w _ _ simulationProd] production_context_Inr(1) [OF ctx]
  show ?thesis by (simp add: step_def)
qed

lemma equilibration_log:
  assumes eq: "cell_equilibrate w prmtop inpcrd l0 =
                 (Inr (system, simulationNPT, positions_eq, velocities_eq, box_vectors_eq), l1)"
  shows "\<exists>lg. sim_reporters simulationNPT = [lg] \<and> rep_kind lg = StateDataReporter log_flags \<and>
           rep_file lg = ''water/npt.log'' \<and> reportInterval lg = 1000 \<and>
           map fst (rep_written lg) = map (\<lambda>i. 1000 * i) [1 ..< 51]"
proof -
  from eq obtain sim0 l where su: "equilibration_setup w prmtop inpcrd l0 = (Inr (system, sim0), l)"
    and st: "step w sim0 50000 = Inr simulationNPT"
    by (rule cell_equilibrate_Inr)
  have run: "simulate w 50000 sim0 = Inr simulationNPT"
    using st equilibration_setup_Inr(7) [OF su] by (simp add: step_def)
  have steps: "report_steps 1000 0 50000 = map (\<lambda>i. 1000 * i) [1 ..< 51]"
    using report_steps_multiples [of 1000 50] by simp
  from simulate_reporters [OF run] equilibration_setup_Inr(6,7) [OF su] steps
  show ?thesis
    by (auto simp: list_all2_Cons1 same_reporter_def new_reporter_def)
qed

lemma production_reports:
  assumes prod: "cell_production w prmtop system p v b l1 = (Inr simulationProd, l2)"
  shows "\<exists>dcd lg. sim_reporters simulationProd = [dcd, lg] \<and>
           rep_kind dcd = DCDReporter \<and> rep_file dcd = ''water/production.dcd'' \<and>
           reportInterval dcd = 1000 \<and>
           map fst (rep_written dcd) = map (\<lambda>i. 1000 * i) [1 ..< 501] \<and>
           rep_kind lg = StateDataReporter log_flags \<and> rep_file lg = ''water/production.log'' \<and>
           reportInterval lg = 1000 \<and>
           map fst (rep_written lg) = map (\<lambda>i. 1000 * i) [1 ..< 501]"
proof -
  from prod obtain sim0 l where ctx: "production_context w prmtop system p v b l1 = (Inr sim0, l)"
    and st: "step w (sim0\<lparr>sim_reporters := sim_reporters sim0 @
            [new_reporter DCDReporter ''water/production.dcd'' 1000,
             new_reporter (StateDataReporter log_flags) ''water/production.log'' 1000]\<rparr>) 500000
          = Inr simulationProd"
    by (rule cell_production_Inr)
  let ?sim1 = "sim0\<lparr>sim_reporters := sim_reporters sim0 @
            [new_reporter DCDReporter ''water/production.dcd'' 1000,
             new_reporter (StateDataReporter log_flags) ''water/production.log'' 1000]\<rparr>"
  have cur: "currentStep ?sim1 = 0"
    and reps: "sim_reporters ?sim1 = [new_reporter DCDReporter ''water/production.dcd'' 1000,
             new_reporter (StateDataReporter log_flags) ''water/production.log'' 1000]"
    using production_context_Inr(5,6) [OF ctx] by simp_all
  have run: "simulate w 500000 ?sim1 = Inr simulationProd"
    using st cur by (simp add: step_def)
  have steps: "report_steps 1000 0 500000 = map (\<lambda>i. 1000 * i) [1 ..< 501]"
    using report_steps_multiples [of 1000 500] by simp
  from simulate_reporters [OF run] show ?thesis
    unfolding cur reps
    by (auto simp: list_all2_Cons1 same_reporter_def new_reporter_def steps)
qed

lemma workflow_InrE:
  assumes "workflow w l0 = (Inr nb, l)"
  obtains prmtop inpcrd la lb lc ld le where
    "cell_load w l0 = (Inr (prmtop, inpcrd, nb_platform nb, nb_properties nb), la)"
    and "cell_equilibrate w prmtop inpcrd la =
           (Inr (nb_system nb, nb_simulationNPT nb, nb_positions_eq nb, nb_velocities_eq nb,
                 nb_box_vectors_eq nb), lb)"
    and "cell_production w prmtop (nb_system nb) (nb_positions_eq nb) (nb_velocities_eq nb)
           (nb_box_vectors_eq nb) lb = (Inr (nb_simulationProd nb), lc)"
    and "cell_visualize w (nb_simulationProd nb) lc = (Inr (nb_u nb), ld)"
    and "cell_analysis w (nb_u nb) ld = (Inr (nb_rdf_OO nb, nb_rdf_OH nb), le)"
    and "cell_plot w (nb_rdf_OO nb) (nb_rdf_OH nb) le = (Inr (), l)"
  using assms unfolding workflow_def cells_after_load_def
  by (auto elim!: exec_elims)

lemma equilibrate_platform:
  assumes eq: "cell_equilibrate w prmtop inpcrd l0 = (Inr (system, simulationNPT, p, v, b), l1)"
  shows "sim_platform simulationNPT = None \<and> sim_platformProperties simulationNPT = None"
proof -
  from eq obtain sim0 l where su: "equilibration_setup w prmtop inpcrd l0 = (Inr (system, sim0), l)"
    and st: "step w sim0 50000 = Inr simulationNPT"
    by (rule cell_equilibrate_Inr)
  from st simulate_fields [of w _ sim0 simulationNPT] equilibration_setup_Inr(4,5) [OF su]
  show ?thesis by (simp add: step_def)
qed

lemma production_platform:
  assumes prod: "cell_production w prmtop system p v b l1 = (Inr simulationProd, l2)"
  shows "sim_platform simulationProd = None \<and> sim_platformProperties simulationProd = None"
proof -
  from prod obtain sim0 l where ctx: "production_context w prmtop system p v b l1 = (Inr sim0, l)"
    and st: "step w (sim0\<lparr>sim_reporters := sim_reporters sim0 @
            [new_reporter DCDReporter ''water/production.dcd'' 1000,
             new_reporter (StateDataReporter log_flags) ''water/production.log'' 1000]\<rparr>) 500000
          = Inr simulationProd"
    by (rule cell_production_Inr)
  from st simulate_fields [of w _ _ simulationProd] production_context_Inr(3,4) [OF ctx]
  show ?thesis by (simp add: step_def)
qed

subsection \<open>The radial distribution functions\<close>

lemma InterRDF_init_notebook:
  "InterRDF_init g1 g2 rdf_kwargs =
     Inr \<lparr>rdf_g1 = g1, rdf_g2 = g2, rdf_range = (0, 10), rdf_nbins = 75,
          rdf_exclude_same = Some Residue\<rparr>"
  by (simp add: InterRDF_init_def rdf_kwargs_def)

lemma cell_analysis_Inr:
  assumes "cell_analysis w u l0 = (Inr (results_OO, results_OH), l1)"
  obtains oxygen_atoms hydrogen_atoms where
    "select_atoms u ''element O'' = Inr oxygen_atoms"
    and "select_atoms u ''element H'' = Inr hydrogen_atoms"
    and "results_OO = run_rdf w u \<lparr>rdf_g1 = oxygen_atoms, rdf_g2 = oxygen_atoms,
            rdf_range = (0, 10), rdf_nbins = 75, rdf_exclude_same = Some Residue\<rparr>"
    and "results_OH = run_rdf w u \<lparr>rdf_g1 = oxygen_atoms, rdf_g2 = hydrogen_atoms,
            rdf_range = (0, 10), rdf_nbins = 75, rdf_exclude_same = Some Residue\<rparr>"
  using assms unfolding cell_analysis_def
  by (auto elim!: exec_elims simp: InterRDF_init_notebook)

lemma run_rdf_lengths:
  "length (res_bins (run_rdf w u r)) = rdf_nbins r"
  "length (res_rdf (run_rdf w u r)) = rdf_nbins r"
  by (simp_all add: run_rdf_def Let_def)

lemma contributing_pairs_residues:
  assumes "rdf_exclude_same r = Some Residue"
    and "(i, j) \<in> set (contributing_pairs w r atoms frame)"
  shows "resindex (atoms ! i) \<noteq> resindex (atoms ! j)"
  using assms by (auto simp: contributing_pairs_def same_group_def)

lemma frame_distances_insensitive:
  assumes ex: "rdf_exclude_same r = Some Residue"
    and same: "\<And>i j. resindex (atoms ! i) \<noteq> resindex (atoms ! j) \<Longrightarrow>
        d' (snd frame) (fst frame ! i) (fst frame ! j) =
        pairDistance w (snd frame) (fst frame ! i) (fst frame ! j)"
  shows "frame_distances (w\<lparr>pairDistance := d'\<rparr>) r atoms frame = frame_distances w r atoms frame"
proof -
  have pairs: "contributing_pairs (w\<lparr>pairDistance := d'\<rparr>) r atoms frame =
               contributing_pairs w r atoms frame"
    unfolding contributing_pairs_def
  proof (rule filter_cong [OF refl])
    fix x assume "x \<in> set (List.product (rdf_g1 r) (rdf_g2 r))"
    obtain i j where x: "x = (i, j)" by (cases x)
    show "(case x of (i, j) \<Rightarrow>
             \<not> same_group (rdf_exclude_same r) (atoms ! i) (atoms ! j) \<and>
             pairDistance (w\<lparr>pairDistance := d'\<rparr>) (snd frame) (fst frame ! i) (fst frame ! j)
               \<le> snd (rdf_range r)) =
          (case x of (i, j) \<Rightarrow>
             \<not> same_group (rdf_exclude_same r) (atoms ! i) (atoms ! j) \<and>
             pairDistance w (snd frame) (fst frame ! i) (fst frame ! j) \<le> snd (rdf_range r))"
      using same [of i j] by (auto simp: x ex same_group_def)
  qed
  show ?thesis
    unfolding frame_distances_def pairs
  proof (rule map_cong [OF refl])
    fix x assume mem: "x \<in> set (contributing_pairs w r atoms frame)"
    obtain i j where x: "x = (i, j)" by (cases x)
    from contributing_pairs_residues [OF ex] mem x
    have "resindex (atoms ! i) \<noteq> resindex (atoms ! j)" by simp
    from same [OF this] show "(case x of (i, j) \<Rightarrow>
            pairDistance (w\<lparr>pairDistance := d'\<rparr>) (snd frame) (fst frame ! i) (fst frame ! j)) =
          (case x of (i, j) \<Rightarrow> pairDistance w (snd frame) (fst frame ! i) (fst frame ! j))"
      by (simp add: x)
  qed
qed

lemma foldl_cong_set:
  "(\<And>acc x. x \<in> set xs \<Longrightarrow> f acc x = g acc x) \<Longrightarrow> foldl f a xs = foldl g a xs"
  by (induction xs arbitrary: a) auto

lemma run_rdf_insensitive:
  assumes ex: "rdf_exclude_same r = Some Residue"
    and same: "\<And>frame i j. frame \<in> set (u_trajectory u) \<Longrightarrow>
        resindex (u_atoms u ! i) \<noteq> resindex (u_atoms u ! j) \<Longrightarrow>
        d' (snd frame) (fst frame ! i) (fst frame ! j) =
        pairDistance w (snd frame) (fst frame ! i) (fst frame ! j)"
  shows "run_rdf (w\<lparr>pairDistance := d'\<rparr>) u r = run_rdf w u r"
proof -
  have "foldl (\<lambda>acc frame. map2 (+) acc (histogram (rdf_range r) (rdf_nbins r)
                 (frame_distances (w\<lparr>pairDistance := d'\<rparr>) r (u_atoms u) frame)))
          (replicate (rdf_nbins r) 0) (u_trajectory u) =
        foldl (\<lambda>acc frame. map2 (+) acc (histogram (rdf_range r) (rdf_nbins r)
                 (frame_distances w r (u_atoms u) frame)))
          (replicate (rdf_nbins r) 0) (u_trajectory u)"
  proof (rule foldl_cong_set)
    fix acc :: "nat list" and frame
    assume "frame \<in> set (u_trajectory u)"
    then have "frame_distances (w\<lparr>pairDistance := d'\<rparr>) r (u_atoms u) frame =
               frame_distances w r (u_atoms u) frame"
      using same by (intro frame_distances_insensitive [OF ex]) auto
    then show "map2 (+) acc (histogram (rdf_range r) (rdf_nbins r)
                 (frame_distances (w\<lparr>pairDistance := d'\<rparr>) r (u_atoms u) frame)) =
               map2 (+) acc (histogram (rdf_range r) (rdf_nbins r)
                 (frame_distances w r (u_atoms u) frame))"
      by simp
  qed
  then show ?thesis by (simp add: run_rdf_def Let_def)
qed

subsection \<open>Nothing after the loading cell looks a platform up\<close>

lemma cell_equilibrate_platform_free:
  "cell_equilibrate (w\<lparr>getPlatformByName := g\<rparr>) prmtop inpcrd = cell_equilibrate w prmtop inpcrd"
  by (simp add: cell_equilibrate_def equilibration_setup_def equilibrated_state_def Simulation_def
        setPeriodicBoxVectors_def minimizeEnergy_def getState_def step_def simulate_platform_free
        cong: sum.case_cong option.case_cong)

lemma cell_production_platform_free:
  "cell_production (w\<lparr>getPlatformByName := g\<rparr>) prmtop sys p v b = cell_production w prmtop sys p v b"
  by (simp add: cell_production_def production_context_def production_reporters_def Simulation_def
        setPeriodicBoxVectors_def step_def simulate_platform_free
        cong: sum.case_cong option.case_cong)

lemma cell_visualize_platform_free:
  "cell_visualize (w\<lparr>getPlatformByName := g\<rparr>) sim = cell_visualize w sim"
  by (simp add: cell_visualize_def Universe_def trajectory_file_def
        cong: sum.case_cong option.case_cong if_cong)

lemma cell_analysis_platform_free:
  "cell_analysis (w\<lparr>getPlatformByName := g\<rparr>) u = cell_analysis w u"
  by (simp add: cell_analysis_def run_rdf_def frame_distances_def contributing_pairs_def
        cong: sum.case_cong option.case_cong)

lemma cell_plot_platform_free:
  "cell_plot (w\<lparr>getPlatformByName := g\<rparr>) oo oh = cell_plot w oo oh"
  by (simp add: cell_plot_def plt_plot_def cong: sum.case_cong option.case_cong)

lemma cells_after_load_platform_free:
  "cells_after_load (w\<lparr>getPlatformByName := g\<rparr>) prmtop inpcrd = cells_after_load w prmtop inpcrd"
  by (simp add: cells_after_load_def cell_equilibrate_platform_free cell_production_platform_free
        cell_visualize_platform_free cell_analysis_platform_free cell_plot_platform_free)

lemma workflow_outcome:
  assumes sel: "fst (select_platform w []) = Inr (platform, properties)"
  shows "map_sum id without_platform (fst (workflow w [])) =
         (case AmberPrmtopFile w ''water/water_box.prmtop'' of
            Inl e \<Rightarrow> Inl e
          | Inr prmtop \<Rightarrow>
              (case AmberInpcrdFile w ''water/water_box.inpcrd'' of
                 Inl e \<Rightarrow> Inl e
               | Inr inpcrd \<Rightarrow> fst (cells_after_load w prmtop inpcrd [])))"
proof (cases "AmberPrmtopFile w ''water/water_box.prmtop''")
  case (Inl e)
  then show ?thesis
    by (simp add: workflow_def cell_load_def bindX_def call_def)
next
  case prm: (Inr prmtop)
  show ?thesis
  proof (cases "AmberInpcrdFile w ''water/water_box.inpcrd''")
    case (Inl e)
    with prm show ?thesis
      by (simp add: workflow_def cell_load_def bindX_def call_def)
  next
    case crd: (Inr inpcrd)
    define n where "n = snd (select_platform w [])"
    have selw: "select_platform w l = (Inr (platform, properties), l @ n)" for l
      using runs_par [OF runs_select_platform, of 0 w l] sel by (simp add: n_def)
    define out2 where "out2 = fst (cells_after_load w prmtop inpcrd [])"
    define n2 where "n2 = snd (cells_after_load w prmtop inpcrd [])"
    have rest: "cells_after_load w prmtop inpcrd l = (out2, l @ n2)" for l
      using runs_par [OF runs_cells_after_load, of 0 w prmtop inpcrd l] by (simp add: out2_def n2_def)
    have "map_sum id without_platform (fst (workflow w [])) = out2"
      by (cases out2)
         (auto simp: workflow_def cell_load_def bindX_def call_def returnX_def raised_def prm crd
            selw rest without_platform_def split: prod.splits)
    then show ?thesis using prm crd by (simp add: out2_def)
  qed
qed


section \<open>The sample world runs to completion\<close>

lemma sample_engine_total: "\<forall>s n. \<exists>st. integratorStep sample_world s n = Inr st"
  by (simp add: sample_world_def)

lemma sample_engine_ok: "engine_ok sample_world"
  by (auto simp: engine_ok_def ctx_ok_def sample_world_def split: prod.splits)

lemma sample_wrap: "periodicWrap sample_world st = st_positions st"
  by (simp add: sample_world_def)

lemma sample_load:
  "cell_load sample_world l0 =
     (Inr (sample_prmtop, sample_inpcrd, Platform ''Reference'', None), l0 @ load_log)"
  by (simp add: cell_load_def select_platform_def try_except_OpenMM_def bindX_def call_def
        returnX_def raised_def sample_world_def load_log_def)

lemma sample_equilibrate_log:
  "\<exists>simulationNPT.
     cell_equilibrate sample_world sample_prmtop sample_inpcrd l0 =
       (Inr (sample_system, simulationNPT, st_positions (sim_context simulationNPT),
             st_velocities (sim_context simulationNPT), st_box (sim_context simulationNPT)),
        l0 @ equilibrate_log) \<and>
     length (st_positions (sim_context simulationNPT)) = 6 \<and>
     length (st_velocities (sim_context simulationNPT)) = 6"
proof -
  have six: "Suc (Suc (Suc (Suc (Suc (Suc 0))))) = 6" by simp
  have "\<exists>sim0. equilibration_setup sample_world sample_prmtop sample_inpcrd l0 =
          (Inr (sample_system, sim0),
           l0 @ [Call Setup 58 ''prmtop.createSystem'' None,
                 Call Equilibration 67 ''app.Simulation'' None,
                 Call Equilibration 68 ''simulationNPT.context.setPositions'' None,
                 Call Equilibration 71 ''simulationNPT.context.setPeriodicBoxVectors'' None,
                 Call Equilibration 73 ''simulationNPT.minimizeEnergy'' None,
                 Call Equilibration 74 ''app.StateDataReporter(water/npt.log)'' None]) \<and>
          (\<forall>r \<in> set (sim_reporters sim0). 0 < reportInterval r)"
    by (simp add: equilibration_setup_def bindX_def call_def returnX_def raised_def
          sample_world_def sample_prmtop_def sample_inpcrd_def water_atoms_def sample_system_def
          addForce_def Simulation_def setPositions_def setPeriodicBoxVectors_def minimizeEnergy_def
          reporters_append_def new_reporter_def temperature_def pressure_def Let_def six)
  then obtain sim0 where su: "equilibration_setup sample_world sample_prmtop sample_inpcrd l0 =
          (Inr (sample_system, sim0),
           l0 @ [Call Setup 58 ''prmtop.createSystem'' None,
                 Call Equilibration 67 ''app.Simulation'' None,
                 Call Equilibration 68 ''simulationNPT.context.setPositions'' None,
                 Call Equilibration 71 ''simulationNPT.context.setPeriodicBoxVectors'' None,
                 Call Equilibration 73 ''simulationNPT.minimizeEnergy'' None,
                 Call Equilibration 74 ''app.StateDataReporter(water/npt.log)'' None])"
    and reps: "\<forall>r \<in> set (sim_reporters sim0). 0 < reportInterval r"
    by blast
  from step_completes [OF sample_engine_total reps] obtain simulationNPT
    where st: "step sample_world sim0 50000 = Inr simulationNPT" by blast
  have ok: "ctx_ok sample_world sample_system (sim_context simulationNPT)"
    using simulate_ctx_ok [of sample_world _ sim0 simulationNPT] st sample_engine_ok
      equilibration_setup_ctx_ok [OF su sample_engine_ok] equilibration_setup_Inr(2) [OF su]
      simulate_fields [of sample_world _ sim0 simulationNPT]
    by (simp add: step_def)
  have "cell_equilibrate sample_world sample_prmtop sample_inpcrd l0 =
       (Inr (sample_system, simulationNPT, st_positions (sim_context simulationNPT),
             st_velocities (sim_context simulationNPT), st_box (sim_context simulationNPT)),
        l0 @ equilibrate_log)"
    by (simp add: cell_equilibrate_def bindX_def call_def returnX_def raised_def su st
          equilibrated_state_def getState_def getPositions_def getVelocities_def
          getPeriodicBoxVectors_def sample_wrap equilibrate_log_def)
  with ok show ?thesis by (auto simp: ctx_ok_def sample_system_def)
qed

lemma sample_equilibrate:
  "\<exists>simulationNPT l1.
     cell_equilibrate sample_world sample_prmtop sample_inpcrd [] =
       (Inr (sample_system, simulationNPT, st_positions (sim_context simulationNPT),
             st_velocities (sim_context simulationNPT), st_box (sim_context simulationNPT)), l1) \<and>
     length (st_positions (sim_context simulationNPT)) = 6 \<and>
     length (st_velocities (sim_context simulationNPT)) = 6"
  using sample_equilibrate_log [of "[]"] by blast

lemma sample_production_log:
  assumes "length p = 6" and "length v = 6"
  shows "\<exists>simulationProd.
     cell_production sample_world sample_prmtop sample_system p v b l1 =
       (Inr simulationProd, l1 @ production_log) \<and>
     written_ok sample_world sample_system simulationProd"
proof -
  have "\<exists>sim0. production_context sample_world sample_prmtop sample_system p v b l1 =
          (Inr sim0, l1 @ [Call Production 93 ''app.Simulation'' None,
                           Call Production 96 ''simulationProd.context.setPositions'' None,
                           Call Production 97 ''simulationProd.context.setVelocities'' None,
                           Call Production 100 ''simulationProd.context.setPeriodicBoxVectors'' None])"
    using assms
    by (simp add: production_context_def bindX_def call_def returnX_def raised_def
          sample_world_def sample_system_def Simulation_def setPositions_def setVelocities_def
          setPeriodicBoxVectors_def temperature_def Let_def)
  then obtain sim0 where ctx: "production_context sample_world sample_prmtop sample_system p v b l1 =
          (Inr sim0, l1 @ [Call Production 93 ''app.Simulation'' None,
                           Call Production 96 ''simulationProd.context.setPositions'' None,
                           Call Production 97 ''simulationProd.context.setVelocities'' None,
                           Call Production 100 ''simulationProd.context.setPeriodicBoxVectors'' None])"
    by blast
  note facts = production_context_Inr [OF ctx]
  let ?sim1 = "reporters_append (reporters_append sim0
                   (new_reporter DCDReporter ''water/production.dcd'' 1000))
                (new_reporter (StateDataReporter log_flags) ''water/production.log'' 1000)"
  have rep: "production_reporters sample_world sim0 l =
     (Inr ?sim1, l @ [Call Production 103 ''app.DCDReporter(water/production.dcd)'' None,
                      Call Production 104 ''app.StateDataReporter(water/production.log)'' None])" for l
    by (simp add: production_reporters_def bindX_def call_def returnX_def raised_def sample_world_def)
  have pos: "\<forall>r \<in> set (sim_reporters ?sim1). 0 < reportInterval r"
    using facts(5) by (simp add: reporters_append_def new_reporter_def)
  from step_completes [OF sample_engine_total pos] obtain simulationProd
    where st: "step sample_world ?sim1 500000 = Inr simulationProd" by blast
  have run: "simulate sample_world 500000 ?sim1 = Inr simulationProd"
    using st facts(6) by (simp add: step_def reporters_append_def)
  have sys1: "sim_system ?sim1 = sample_system"
    using facts(1) by (simp add: reporters_append_def)
  have ok1: "ctx_ok sample_world (sim_system ?sim1) (sim_context ?sim1)"
    using facts(7,8,9) sys1 by (simp add: ctx_ok_def reporters_append_def sample_world_def)
  have w1: "written_ok sample_world (sim_system ?sim1) ?sim1"
    using facts(5) by (simp add: written_ok_def reporters_append_def new_reporter_def)
  have wr: "written_ok sample_world sample_system simulationProd"
    using simulate_written_ok [OF run sample_engine_ok ok1 w1] sys1 by simp
  have "cell_production sample_world sample_prmtop sample_system p v b l1 =
     (Inr simulationProd, l1 @ production_log)"
    by (simp add: cell_production_def bindX_def ctx rep call_def raised_def st production_log_def)
  with wr show ?thesis by blast
qed

lemma sample_production:
  assumes "length p = 6" and "length v = 6"
  shows "\<exists>simulationProd l2.
     cell_production sample_world sample_prmtop sample_system p v b l1 = (Inr simulationProd, l2)"
  using sample_production_log [OF assms, of b l1] by blast

lemma sample_box_grows:
  "simulate sample_world e sim = Inr sim' \<Longrightarrow> list_ex is_barostat (forces (sim_system sim)) \<Longrightarrow>
     currentStep sim < e \<Longrightarrow>
     fst (st_box (sim_context sim)) < fst (st_box (sim_context sim'))"
proof (induction sample_world e sim rule: simulate.induct)
  case (1 e sim)
  from "1.prems" obtain s1 where adv: "advance sample_world e sim = Inr s1"
    and rest: "simulate sample_world e s1 = Inr sim'"
    by (auto simp: simulate.simps [of sample_world e sim] split: sum.splits)
  from advance_result [OF adv "1.prems"(3)] obtain ns where
    sys: "sim_system s1 = sim_system sim"
    and st: "integratorStep sample_world sim ns = Inr (sim_context s1)"
    by blast
  from st "1.prems"(2) have ctx1: "sim_context s1 = (sim_context sim)\<lparr>st_box :=
      (case st_box (sim_context sim) of (a, b, c) \<Rightarrow> (a + 1, b + 1, c + 1))\<rparr>"
    by (simp add: sample_world_def)
  have one: "fst (st_box (sim_context s1)) = fst (st_box (sim_context sim)) + 1"
    by (cases "st_box (sim_context sim)") (simp add: ctx1)
  show ?case
  proof (cases "currentStep s1 < e")
    case True
    have "list_ex is_barostat (forces (sim_system s1))" using sys "1.prems"(2) by simp
    from "1.hyps" [OF "1.prems"(3) adv rest this True] one show ?thesis by simp
  next
    case False
    with rest have "sim' = s1" by (simp add: simulate.simps [of sample_world e s1])
    with one show ?thesis by simp
  qed
qed

lemma sample_visualize:
  assumes "written_ok sample_world sample_system sim"
  shows "cell_visualize sample_world sim l =
     (Inr \<lparr>u_atoms = water_atoms,
           u_trajectory = trajectory_file sample_world sim ''water/production.dcd''\<rparr>,
      l @ [Call Analysis 143 ''mda.Universe'' None,
           Call Analysis 145 ''nv.show_mdanalysis'' None,
           Call Analysis 148 ''view.clear_representations'' None,
           Call Analysis 151 ''view.add_representation'' None,
           Call Analysis 154 ''view.center'' None])"
proof -
  have len: "length water_atoms = numParticles sample_system"
    by (simp add: water_atoms_def sample_system_def)
  have pt: "parseTopology sample_world f = Inr water_atoms" for f
    by (simp add: sample_world_def)
  have uni: "Universe sample_world ''water/water_box.prmtop''
          (trajectory_file sample_world sim ''water/production.dcd'') =
        Inr \<lparr>u_atoms = water_atoms,
             u_trajectory = trajectory_file sample_world sim ''water/production.dcd''\<rparr>"
    using trajectory_file_ok [OF sample_engine_ok assms, of "''water/production.dcd''"]
    by (simp add: Universe_def len pt)
  have ngl: "nglview sample_world f = Inr ()" for f by (simp add: sample_world_def)
  show ?thesis
    by (simp add: cell_visualize_def bindX_def call_def returnX_def raised_def uni ngl)
qed

lemma sample_analysis_log:
  assumes "u_atoms u = water_atoms"
  shows "cell_analysis sample_world u l =
     (Inr (run_rdf sample_world u
             \<lparr>rdf_g1 = [0, 3], rdf_g2 = [0, 3], rdf_range = (0, 10), rdf_nbins = 75,
              rdf_exclude_same = Some Residue\<rparr>,
           run_rdf sample_world u
             \<lparr>rdf_g1 = [0, 3], rdf_g2 = [1, 2, 4, 5], rdf_range = (0, 10), rdf_nbins = 75,
              rdf_exclude_same = Some Residue\<rparr>),
      l @ [Call Analysis 176 ''u.select_atoms(element O)'' None,
       Call Analysis 177 ''u.select_atoms(element H)'' None,
       Call Analysis 180 ''rdf.InterRDF(oxygen_atoms, oxygen_atoms)'' None,
       Call Analysis 181 ''rdf_OO.run'' None,
       Call Analysis 184 ''rdf.InterRDF(oxygen_atoms, hydrogen_atoms)'' None,
       Call Analysis 185 ''rdf_OH.run'' None])"
proof -
  have upt6: "[0 ..< 6] = [0, 1, 2, 3, 4, 5::nat]" by (simp add: upt_rec)
  have len: "length water_atoms = 6" by (simp add: water_atoms_def)
  have o: "select_atoms u ''element O'' = Inr [0, 3]"
    by (simp add: select_atoms_def assms len upt6) (simp add: water_atoms_def)
  have h: "select_atoms u ''element H'' = Inr [1, 2, 4, 5]"
    by (simp add: select_atoms_def assms len upt6) (simp add: water_atoms_def)
  show ?thesis
    by (simp add: cell_analysis_def bindX_def call_def returnX_def raised_def o h
          InterRDF_init_notebook)
qed

lemma sample_analysis:
  "cell_analysis sample_world sample_universe [] =
     (Inr (run_rdf sample_world sample_universe
             \<lparr>rdf_g1 = [0, 3], rdf_g2 = [0, 3], rdf_range = (0, 10), rdf_nbins = 75,
              rdf_exclude_same = Some Residue\<rparr>,
           run_rdf sample_world sample_universe
             \<lparr>rdf_g1 = [0, 3], rdf_g2 = [1, 2, 4, 5], rdf_range = (0, 10), rdf_nbins = 75,
              rdf_exclude_same = Some Residue\<rparr>),
      [Call Analysis 176 ''u.select_atoms(element O)'' None,
       Call Analysis 177 ''u.select_atoms(element H)'' None,
       Call Analysis 180 ''rdf.InterRDF(oxygen_atoms, oxygen_atoms)'' None,
       Call Analysis 181 ''rdf_OO.run'' None,
       Call Analysis 184 ''rdf.InterRDF(oxygen_atoms, hydrogen_atoms)'' None,
       Call Analysis 185 ''rdf_OH.run'' None])"
  using sample_analysis_log [of sample_universe "[]"] by (simp add: sample_universe_def)

lemma sample_plot:
  "cell_plot sample_world (run_rdf w u r1) (run_rdf w u r2) l = (Inr (), l @ plot_log)"
proof -
  have plt: "pyplot sample_world f = Inr ()" for f by (simp add: sample_world_def)
  show ?thesis
    by (simp add: cell_plot_def bindX_def call_def returnX_def raised_def plt_plot_def
          run_rdf_lengths plt plot_log_def)
qed

lemma sample_workflow:
  "\<exists>nb. workflow sample_world [] =
           (Inr nb, load_log @ equilibrate_log @ production_log @ analysis_log @ plot_log) \<and>
         nb_platform nb = Platform ''Reference'' \<and> nb_properties nb = None \<and>
         sim_platform (nb_simulationNPT nb) = None \<and> sim_platform (nb_simulationProd nb) = None"
proof -
  from sample_equilibrate_log [of load_log] obtain simulationNPT where
    eq: "cell_equilibrate sample_world sample_prmtop sample_inpcrd load_log =
       (Inr (sample_system, simulationNPT, st_positions (sim_context simulationNPT),
             st_velocities (sim_context simulationNPT), st_box (sim_context simulationNPT)),
        load_log @ equilibrate_log)"
    and len: "length (st_positions (sim_context simulationNPT)) = 6"
      "length (st_velocities (sim_context simulationNPT)) = 6"
    by blast
  from sample_production_log [OF len] obtain simulationProd where
    prod: "cell_production sample_world sample_prmtop sample_system
             (st_positions (sim_context simulationNPT)) (st_velocities (sim_context simulationNPT))
             (st_box (sim_context simulationNPT)) (load_log @ equilibrate_log) =
           (Inr simulationProd, (load_log @ equilibrate_log) @ production_log)"
    and wr: "written_ok sample_world sample_system simulationProd"
    by blast
  let ?u = "\<lparr>u_atoms = water_atoms,
           u_trajectory = trajectory_file sample_world simulationProd ''water/production.dcd''\<rparr>"
  have ld: "cell_load sample_world [] =
     (Inr (sample_prmtop, sample_inpcrd, Platform ''Reference'', None), load_log)"
    using sample_load [of "[]"] by simp
  have prod': "cell_production sample_world sample_prmtop sample_system
             (st_positions (sim_context simulationNPT)) (st_velocities (sim_context simulationNPT))
             (st_box (sim_context simulationNPT)) (load_log @ equilibrate_log) =
           (Inr simulationProd, load_log @ equilibrate_log @ production_log)"
    using prod by simp
  have after: "cells_after_load sample_world sample_prmtop sample_inpcrd load_log =
     (Inr (sample_system, simulationNPT, st_positions (sim_context simulationNPT),
           st_velocities (sim_context simulationNPT), st_box (sim_context simulationNPT),
           simulationProd, ?u,
           run_rdf sample_world ?u
             \<lparr>rdf_g1 = [0, 3], rdf_g2 = [0, 3], rdf_range = (0, 10), rdf_nbins = 75,
              rdf_exclude_same = Some Residue\<rparr>,
           run_rdf sample_world ?u
             \<lparr>rdf_g1 = [0, 3], rdf_g2 = [1, 2, 4, 5], rdf_range = (0, 10), rdf_nbins = 75,
              rdf_exclude_same = Some Residue\<rparr>),
      load_log @ equilibrate_log @ production_log @ analysis_log @ plot_log)"
    by (simp add: cells_after_load_def bindX_def returnX_def eq prod' sample_visualize [OF wr]
          sample_analysis_log sample_plot analysis_log_def)
  have "workflow sample_world [] =
     (Inr \<lparr>nb_platform = Platform ''Reference'', nb_properties = None, nb_system = sample_system,
           nb_simulationNPT = simulationNPT,
           nb_positions_eq = st_positions (sim_context simulationNPT),
           nb_velocities_eq = st_velocities (sim_context simulationNPT),
           nb_box_vectors_eq = st_box (sim_context simulationNPT),
           nb_simulationProd = simulationProd, nb_u = ?u,
           nb_rdf_OO = run_rdf sample_world ?u
             \<lparr>rdf_g1 = [0, 3], rdf_g2 = [0, 3], rdf_range = (0, 10), rdf_nbins = 75,
              rdf_exclude_same = Some Residue\<rparr>,
           nb_rdf_OH = run_rdf sample_world ?u
             \<lparr>rdf_g1 = [0, 3], rdf_g2 = [1, 2, 4, 5], rdf_range = (0, 10), rdf_nbins = 75,
              rdf_exclude_same = Some Residue\<rparr>\<rparr>,
      load_log @ equilibrate_log @ production_log @ analysis_log @ plot_log)"
    by (simp add: workflow_def bindX_def returnX_def ld after)
  moreover have "sim_platform simulationNPT = None"
    using equilibrate_platform [OF eq] by simp
  moreover have "sim_platform simulationProd = None"
    using production_platform [OF prod] by simp
  ultimately show ?thesis by simp
qed

section \<open>The claims\<close>

text \<open>
  C8. Apart from the one handled device-selection case, every failure propagates
  uncaught as the library's exception and ends the workflow; nothing is retried. In
  every run, the exceptions that were raised and not handled are exactly the outcome of
  the run: none when it completes, and the one it ends with otherwise, which is the
  exception of the last call made. The calls run in the order of their lines, each at
  most once. The only handled exception is an \<^verbatim>\<open>OpenMMException\<close> on line 45.
\<close>

theorem failures_propagate:
  "unhandled_errors (snd (workflow w [])) = outcome_errors (fst (workflow w [])) \<and>
   ends_with (fst (workflow w [])) (snd (workflow w [])) \<and>
   sorted_wrt (<) (map ev_line (snd (workflow w [])))"
  using runs_unhandled [OF runs_workflow, of w] runs_ends [OF runs_workflow, of w]
    runs_sorted [OF runs_workflow, of w] by simp

theorem failures_propagate_witness:
  "workflow failing_world [] =
     (Inl (PythonException ''ValueError''),
      [Call Setup 40 ''app.AmberPrmtopFile'' None,
       Call Setup 41 ''app.AmberInpcrdFile'' None,
       Call Setup 45 ''mm.Platform.getPlatformByName(CUDA)''
         (Some (OpenMMException ''no such platform'')),
       Call Setup 48 ''mm.Platform.getPlatformByName(Reference)'' None,
       Call Setup 58 ''prmtop.createSystem'' (Some (PythonException ''ValueError''))]) \<and>
   unhandled_errors (snd (workflow failing_world [])) = [PythonException ''ValueError''] \<and>
   ends_with (fst (workflow failing_world [])) (snd (workflow failing_world []))"
proof -
  have run: "workflow failing_world [] =
     (Inl (PythonException ''ValueError''),
      [Call Setup 40 ''app.AmberPrmtopFile'' None,
       Call Setup 41 ''app.AmberInpcrdFile'' None,
       Call Setup 45 ''mm.Platform.getPlatformByName(CUDA)''
         (Some (OpenMMException ''no such platform'')),
       Call Setup 48 ''mm.Platform.getPlatformByName(Reference)'' None,
       Call Setup 58 ''prmtop.createSystem'' (Some (PythonException ''ValueError''))])"
    by (simp add: workflow_def cell_load_def select_platform_def cells_after_load_def
          cell_equilibrate_def equilibration_setup_def bindX_def call_def returnX_def
          try_except_OpenMM_def raised_def failing_world_def sample_world_def)
  from failures_propagate [of failing_world] run show ?thesis
    by (simp add: outcome_errors_def)
qed

text \<open>
  C1 (as the claim states it, refuted). The claim has the production stage at constant
  volume, with the barostat active only during equilibration. In the sample world, whose
  engine rescales the box wherever the system holds a barostat, the notebook's production
  run completes on a system that holds the barostat, and its box vectors at the end
  differ from the ones it started with.
\<close>

theorem production_box_counterexample:
  "\<exists>simulationNPT p v b l1 simulationProd l2.
     cell_equilibrate sample_world sample_prmtop sample_inpcrd [] =
       (Inr (sample_system, simulationNPT, p, v, b), l1) \<and>
     cell_production sample_world sample_prmtop sample_system p v b l1 = (Inr simulationProd, l2) \<and>
     list_ex is_barostat (forces (sim_system simulationProd)) \<and>
     st_box (sim_context simulationProd) \<noteq> b"
proof -
  from sample_equilibrate obtain simulationNPT l1 where
    eq: "cell_equilibrate sample_world sample_prmtop sample_inpcrd [] =
       (Inr (sample_system, simulationNPT, st_positions (sim_context simulationNPT),
             st_velocities (sim_context simulationNPT), st_box (sim_context simulationNPT)), l1)"
    and len: "length (st_positions (sim_context simulationNPT)) = 6"
      "length (st_velocities (sim_context simulationNPT)) = 6"
    by blast
  let ?p = "st_positions (sim_context simulationNPT)"
  let ?v = "st_velocities (sim_context simulationNPT)"
  let ?b = "st_box (sim_context simulationNPT)"
  from sample_production [OF len] obtain simulationProd l2 where
    prod: "cell_production sample_world sample_prmtop sample_system ?p ?v ?b l1 = (Inr simulationProd, l2)"
    by blast
  from prod obtain sim0 l where ctx: "production_context sample_world sample_prmtop sample_system ?p ?v ?b l1 = (Inr sim0, l)"
    and st: "step sample_world (sim0\<lparr>sim_reporters := sim_reporters sim0 @
            [new_reporter DCDReporter ''water/production.dcd'' 1000,
             new_reporter (StateDataReporter log_flags) ''water/production.log'' 1000]\<rparr>) 500000
          = Inr simulationProd"
    by (rule cell_production_Inr)
  let ?sim1 = "sim0\<lparr>sim_reporters := sim_reporters sim0 @
            [new_reporter DCDReporter ''water/production.dcd'' 1000,
             new_reporter (StateDataReporter log_flags) ''water/production.log'' 1000]\<rparr>"
  have sys: "sim_system ?sim1 = sample_system" and cur: "currentStep ?sim1 = 0"
    and box: "st_box (sim_context ?sim1) = ?b"
    using production_context_Inr [OF ctx] by simp_all
  have baro: "list_ex is_barostat (forces (sim_system ?sim1))"
    using sys by (simp add: sample_system_def)
  have run: "simulate sample_world 500000 ?sim1 = Inr simulationProd"
    using st cur by (simp add: step_def)
  have "fst (st_box (sim_context ?sim1)) < fst (st_box (sim_context simulationProd))"
    using sample_box_grows [OF run baro] cur by simp
  then have "st_box (sim_context simulationProd) \<noteq> ?b" using box by auto
  moreover have "list_ex is_barostat (forces (sim_system simulationProd))"
    using production_system [OF prod] by (simp add: sample_system_def)
  ultimately show ?thesis using eq prod by blast
qed

text \<open>
  C1 (amended). The barostat is added to the system once, before the equilibration
  simulation is built, and never removed; the production simulation is built from the
  same system. So for every run that completes both stages, the system of the production
  simulation is the system of the equilibration simulation and holds the Monte Carlo
  barostat: pressure coupling is present in both stages.
\<close>

theorem barostat_in_production:
  assumes eq: "cell_equilibrate w prmtop inpcrd l0 =
                 (Inr (system, simulationNPT, positions_eq, velocities_eq, box_vectors_eq), l1)"
    and prod: "cell_production w prmtop system positions_eq velocities_eq box_vectors_eq l1 =
                 (Inr simulationProd, l2)"
  shows "MonteCarloBarostat pressure temperature \<in> set (forces (sim_system simulationNPT)) \<and>
         MonteCarloBarostat pressure temperature \<in> set (forces (sim_system simulationProd)) \<and>
         sim_system simulationProd = sim_system simulationNPT"
  using barostat_kept [OF eq] production_system [OF prod] by simp

theorem barostat_in_production_witness:
  "\<exists>simulationNPT p v b l1 simulationProd l2.
     cell_equilibrate sample_world sample_prmtop sample_inpcrd [] =
       (Inr (sample_system, simulationNPT, p, v, b), l1) \<and>
     cell_production sample_world sample_prmtop sample_system p v b l1 = (Inr simulationProd, l2) \<and>
     MonteCarloBarostat pressure temperature \<in> set (forces (sim_system simulationProd)) \<and>
     sim_system simulationProd = sim_system simulationNPT"
proof -
  from sample_equilibrate obtain simulationNPT l1 where
    eq: "cell_equilibrate sample_world sample_prmtop sample_inpcrd [] =
       (Inr (sample_system, simulationNPT, st_positions (sim_context simulationNPT),
             st_velocities (sim_context simulationNPT), st_box (sim_context simulationNPT)), l1)"
    and len: "length (st_positions (sim_context simulationNPT)) = 6"
      "length (st_velocities (sim_context simulationNPT)) = 6"
    by blast
  from sample_production [OF len] obtain simulationProd l2 where
    prod: "cell_production sample_world sample_prmtop sample_system
             (st_positions (sim_context simulationNPT)) (st_velocities (sim_context simulationNPT))
             (st_box (sim_context simulationNPT)) l1 = (Inr simulationProd, l2)"
    by blast
  from barostat_in_production [OF eq prod] eq prod show ?thesis by blast
qed


text \<open>
  C2. For every run that completes the NPT equilibration stage (with a well-behaved
  engine, and where the production context can be created), the positions, velocities
  and box vectors extracted from the equilibration context (the positions as
  \<^verbatim>\<open>getState(enforcePeriodicBox=True)\<close> returns them) are accepted by the three setters
  of the production context, with no shape mismatch, and the production context then
  holds exactly this triple.
\<close>

theorem equilibrated_state_installed:
  assumes eng: "engine_ok w"
    and eq: "cell_equilibrate w prmtop inpcrd l0 =
               (Inr (system, simulationNPT, positions_eq, velocities_eq, box_vectors_eq), l1)"
    and ctx: "newContext w system (LangevinIntegrator temperature 1 2) None None = Inr st0"
  shows "positions_eq = periodicWrap w (sim_context simulationNPT) \<and>
         velocities_eq = st_velocities (sim_context simulationNPT) \<and>
         box_vectors_eq = st_box (sim_context simulationNPT) \<and>
         (\<exists>simulationProd l2.
            production_context w prmtop system positions_eq velocities_eq box_vectors_eq l1 =
              (Inr simulationProd, l2) \<and>
            sim_context simulationProd =
              \<lparr>st_positions = positions_eq, st_velocities = velocities_eq,
               st_box = box_vectors_eq\<rparr>)"
proof -
  from eq obtain sim0 l where su: "equilibration_setup w prmtop inpcrd l0 = (Inr (system, sim0), l)"
    and st: "step w sim0 50000 = Inr simulationNPT"
    and p: "positions_eq = periodicWrap w (sim_context simulationNPT)"
    and v: "velocities_eq = st_velocities (sim_context simulationNPT)"
    and b: "box_vectors_eq = st_box (sim_context simulationNPT)"
    by (rule cell_equilibrate_Inr)
  have sys0: "sim_system sim0 = system" by (rule equilibration_setup_Inr(2) [OF su])
  have run: "simulate w (currentStep sim0 + 50000) sim0 = Inr simulationNPT"
    using st by (simp add: step_def)
  have sys: "sim_system simulationNPT = system"
    using simulate_fields [OF run] sys0 by simp
  have "ctx_ok w (sim_system sim0) (sim_context sim0)"
    using equilibration_setup_ctx_ok [OF su eng] sys0 by simp
  from simulate_ctx_ok [OF run eng this] sys
  have ok: "ctx_ok w system (sim_context simulationNPT)" by simp
  have lp: "length positions_eq = numParticles system"
    using ok p engine_wrap [OF eng] by (simp add: ctx_ok_def)
  have lv: "length velocities_eq = numParticles system"
    using ok v by (simp add: ctx_ok_def)
  have vb: "validBox w box_vectors_eq"
    using ok b by (simp add: ctx_ok_def)
  have "production_context w prmtop system positions_eq velocities_eq box_vectors_eq l1 =
          (Inr \<lparr>sim_topology = prm_topology prmtop, sim_system = system,
                sim_integrator = LangevinIntegrator temperature 1 2,
                sim_platform = None, sim_platformProperties = None,
                sim_context = \<lparr>st_positions = positions_eq, st_velocities = velocities_eq,
                                st_box = box_vectors_eq\<rparr>,
                sim_reporters = [], currentStep = 0\<rparr>,
           l1 @ [Call Production 93 ''app.Simulation'' None,
                 Call Production 96 ''simulationProd.context.setPositions'' None,
                 Call Production 97 ''simulationProd.context.setVelocities'' None,
                 Call Production 100 ''simulationProd.context.setPeriodicBoxVectors'' None])"
    using ctx lp lv vb
    by (simp add: production_context_def Let_def bindX_def call_def raised_def Simulation_def
          setPositions_def setVelocities_def setPeriodicBoxVectors_def)
  with p v b show ?thesis by simp
qed

theorem equilibrated_state_installed_witness:
  "engine_ok sample_world \<and>
   (\<exists>simulationNPT p v b l1 simulationProd l2.
      cell_equilibrate sample_world sample_prmtop sample_inpcrd [] =
        (Inr (sample_system, simulationNPT, p, v, b), l1) \<and>
      production_context sample_world sample_prmtop sample_system p v b l1 = (Inr simulationProd, l2) \<and>
      sim_context simulationProd = \<lparr>st_positions = p, st_velocities = v, st_box = b\<rparr>)"
proof -
  from sample_equilibrate obtain simulationNPT l1 where
    eq: "cell_equilibrate sample_world sample_prmtop sample_inpcrd [] =
       (Inr (sample_system, simulationNPT, st_positions (sim_context simulationNPT),
             st_velocities (sim_context simulationNPT), st_box (sim_context simulationNPT)), l1)"
    by blast
  have ctx: "newContext sample_world sample_system (LangevinIntegrator temperature 1 2) None None =
          Inr \<lparr>st_positions = replicate 6 0, st_velocities = replicate 6 0, st_box = (20, 20, 20)\<rparr>"
    by (simp add: sample_world_def sample_system_def)
  from equilibrated_state_installed [OF sample_engine_ok eq ctx] eq sample_engine_ok
  show ?thesis by blast
qed

text \<open>
  C4. For every completed production run, the trajectory file holds a number of frames
  fixed by the step count and the reporting interval: 500000 steps reported every 1000
  steps give exactly 500 frames, written at steps 1000, 2000, ..., 500000.
\<close>

theorem trajectory_frames:
  assumes prod: "cell_production w prmtop system p v b l1 = (Inr simulationProd, l2)"
  shows "length (trajectory_file w simulationProd ''water/production.dcd'') = 500000 div 1000 \<and>
         length (trajectory_file w simulationProd ''water/production.dcd'') = 500 \<and>
         (\<exists>dcd lg. sim_reporters simulationProd = [dcd, lg] \<and> rep_kind dcd = DCDReporter \<and>
            rep_file dcd = ''water/production.dcd'' \<and>
            map fst (rep_written dcd) = map (\<lambda>i. 1000 * i) [1 ..< 501])"
proof -
  from production_reports [OF prod] obtain dcd lg where
    reps: "sim_reporters simulationProd = [dcd, lg]" and dcd: "rep_kind dcd = DCDReporter"
      "rep_file dcd = ''water/production.dcd''"
      "map fst (rep_written dcd) = map (\<lambda>i. 1000 * i) [1 ..< 501]"
    and lg: "rep_kind lg = StateDataReporter log_flags"
    by blast
  have "length (rep_written dcd) = length (map fst (rep_written dcd))" by simp
  also have "\<dots> = 500" unfolding dcd(3) by simp
  finally have len: "length (rep_written dcd) = 500" .
  have "length (trajectory_file w simulationProd ''water/production.dcd'') = 500"
    using reps dcd lg len by (simp add: trajectory_file_def)
  then show ?thesis using reps dcd by auto
qed

theorem trajectory_frames_witness:
  "\<exists>simulationProd l2.
     cell_production sample_world sample_prmtop sample_system
       [0, 1, 2, 10, 11, 12] [0, 0, 0, 0, 0, 0] (30, 30, 30) [] = (Inr simulationProd, l2) \<and>
     length (trajectory_file sample_world simulationProd ''water/production.dcd'') = 500"
proof -
  from sample_production [of "[0, 1, 2, 10, 11, 12]" "[0, 0, 0, 0, 0, 0]" "(30, 30, 30)" "[]"]
  obtain simulationProd l2 where
    prod: "cell_production sample_world sample_prmtop sample_system
       [0, 1, 2, 10, 11, 12] [0, 0, 0, 0, 0, 0] (30, 30, 30) [] = (Inr simulationProd, l2)"
    by auto
  from trajectory_frames [OF prod] prod show ?thesis by blast
qed

text \<open>
  C9. Both the equilibration and the production stage write a state log whose columns
  are exactly step, potential energy, temperature and density, one record every 1000
  steps: at steps 1000, ..., 50000 of the equilibration and 1000, ..., 500000 of the
  production run.
\<close>

theorem state_logs:
  assumes eq: "cell_equilibrate w prmtop inpcrd l0 =
                 (Inr (system, simulationNPT, positions_eq, velocities_eq, box_vectors_eq), l1)"
    and prod: "cell_production w prmtop system positions_eq velocities_eq box_vectors_eq l1 =
                 (Inr simulationProd, l2)"
  shows "headers log_flags =
           [''Step'', ''Potential Energy (kJ/mole)'', ''Temperature (K)'', ''Density (g/mL)''] \<and>
         (\<exists>lg. sim_reporters simulationNPT = [lg] \<and> rep_kind lg = StateDataReporter log_flags \<and>
            rep_file lg = ''water/npt.log'' \<and> reportInterval lg = 1000 \<and>
            map fst (rep_written lg) = map (\<lambda>i. 1000 * i) [1 ..< 51]) \<and>
         (\<exists>dcd lg. sim_reporters simulationProd = [dcd, lg] \<and>
            rep_kind lg = StateDataReporter log_flags \<and>
            rep_file lg = ''water/production.log'' \<and> reportInterval lg = 1000 \<and>
            map fst (rep_written lg) = map (\<lambda>i. 1000 * i) [1 ..< 501])"
proof -
  have "headers log_flags =
           [''Step'', ''Potential Energy (kJ/mole)'', ''Temperature (K)'', ''Density (g/mL)'']"
    by (simp add: headers_def log_flags_def sdr_defaults_def)
  moreover from production_reports [OF prod]
  have "\<exists>dcd lg. sim_reporters simulationProd = [dcd, lg] \<and>
            rep_kind lg = StateDataReporter log_flags \<and>
            rep_file lg = ''water/production.log'' \<and> reportInterval lg = 1000 \<and>
            map fst (rep_written lg) = map (\<lambda>i. 1000 * i) [1 ..< 501]"
    by blast
  ultimately show ?thesis using equilibration_log [OF eq] by blast
qed

theorem state_logs_witness:
  "\<exists>simulationNPT p v b l1 simulationProd l2.
     cell_equilibrate sample_world sample_prmtop sample_inpcrd [] =
       (Inr (sample_system, simulationNPT, p, v, b), l1) \<and>
     cell_production sample_world sample_prmtop sample_system p v b l1 = (Inr simulationProd, l2) \<and>
     (\<exists>lg. sim_reporters simulationNPT = [lg] \<and> rep_kind lg = StateDataReporter log_flags \<and>
            map fst (rep_written lg) = map (\<lambda>i. 1000 * i) [1 ..< 51]) \<and>
     (\<exists>dcd lg. sim_reporters simulationProd = [dcd, lg] \<and>
            rep_kind lg = StateDataReporter log_flags \<and>
            map fst (rep_written lg) = map (\<lambda>i. 1000 * i) [1 ..< 501])"
proof -
  from sample_equilibrate obtain simulationNPT l1 where
    eq: "cell_equilibrate sample_world sample_prmtop sample_inpcrd [] =
       (Inr (sample_system, simulationNPT, st_positions (sim_context simulationNPT),
             st_velocities (sim_context simulationNPT), st_box (sim_context simulationNPT)), l1)"
    and len: "length (st_positions (sim_context simulationNPT)) = 6"
      "length (st_velocities (sim_context simulationNPT)) = 6"
    by blast
  from sample_production [OF len] obtain simulationProd l2 where
    prod: "cell_production sample_world sample_prmtop sample_system
             (st_positions (sim_context simulationNPT)) (st_velocities (sim_context simulationNPT))
             (st_box (sim_context simulationNPT)) l1 = (Inr simulationProd, l2)"
    by blast
  from state_logs [OF eq prod] eq prod show ?thesis by blast
qed

text \<open>
  C10. The platform object and the CUDA properties chosen by the device selection are
  never passed on: lines 58 to 215 do not mention them, and both simulations are built
  with no platform argument. For any two worlds that differ only in which platforms can
  be looked up, and in both of which the selection succeeds, the two runs end the same
  way and bind the same values to every name but \<^verbatim>\<open>platform\<close> and \<^verbatim>\<open>properties\<close>; in
  particular the equilibration and production simulations are identical.
\<close>

theorem platform_selection_unused:
  assumes "fst (select_platform w []) = Inr sel"
    and "fst (select_platform (w\<lparr>getPlatformByName := g\<rparr>) []) = Inr sel'"
  shows "map_sum id without_platform (fst (workflow (w\<lparr>getPlatformByName := g\<rparr>) [])) =
           map_sum id without_platform (fst (workflow w [])) \<and>
         (case fst (workflow w []) of
            Inl e \<Rightarrow> True
          | Inr nb \<Rightarrow>
              sim_platform (nb_simulationNPT nb) = None \<and>
              sim_platformProperties (nb_simulationNPT nb) = None \<and>
              sim_platform (nb_simulationProd nb) = None \<and>
              sim_platformProperties (nb_simulationProd nb) = None)"
proof
  obtain pl pr where sel: "sel = (pl, pr)" by (cases sel)
  obtain pl' pr' where sel': "sel' = (pl', pr')" by (cases sel')
  let ?outcome = "\<lambda>v. case AmberPrmtopFile v ''water/water_box.prmtop'' of
            Inl e \<Rightarrow> Inl e
          | Inr prmtop \<Rightarrow>
              (case AmberInpcrdFile v ''water/water_box.inpcrd'' of
                 Inl e \<Rightarrow> Inl e
               | Inr inpcrd \<Rightarrow> fst (cells_after_load v prmtop inpcrd []))"
  have a: "map_sum id without_platform (fst (workflow w [])) = ?outcome w"
    using assms(1) unfolding sel by (rule workflow_outcome)
  have b: "map_sum id without_platform (fst (workflow (w\<lparr>getPlatformByName := g\<rparr>) [])) =
             ?outcome (w\<lparr>getPlatformByName := g\<rparr>)"
    using assms(2) unfolding sel' by (rule workflow_outcome)
  have c: "?outcome (w\<lparr>getPlatformByName := g\<rparr>) = ?outcome w"
    by (simp add: cells_after_load_platform_free cong: sum.case_cong)
  show "map_sum id without_platform (fst (workflow (w\<lparr>getPlatformByName := g\<rparr>) [])) =
           map_sum id without_platform (fst (workflow w []))"
    unfolding a b c ..
  show "case fst (workflow w []) of
            Inl e \<Rightarrow> True
          | Inr nb \<Rightarrow>
              sim_platform (nb_simulationNPT nb) = None \<and>
              sim_platformProperties (nb_simulationNPT nb) = None \<and>
              sim_platform (nb_simulationProd nb) = None \<and>
              sim_platformProperties (nb_simulationProd nb) = None"
  proof (cases "fst (workflow w [])")
    case (Inl e)
    then show ?thesis by simp
  next
    case (Inr nb)
    then have "workflow w [] = (Inr nb, snd (workflow w []))"
      by (cases "workflow w []") simp
    then obtain prmtop inpcrd la lb lc where
      eq: "cell_equilibrate w prmtop inpcrd la =
           (Inr (nb_system nb, nb_simulationNPT nb, nb_positions_eq nb, nb_velocities_eq nb,
                 nb_box_vectors_eq nb), lb)"
      and prod: "cell_production w prmtop (nb_system nb) (nb_positions_eq nb) (nb_velocities_eq nb)
           (nb_box_vectors_eq nb) lb = (Inr (nb_simulationProd nb), lc)"
      by (rule workflow_InrE)
    from equilibrate_platform [OF eq] production_platform [OF prod] Inr
    show ?thesis by simp
  qed
qed

theorem platform_selection_unused_witness:
  "\<exists>nb.
   fst (select_platform sample_world []) = Inr (Platform ''Reference'', None) \<and>
   fst (select_platform (sample_world\<lparr>getPlatformByName := \<lambda>name. Inr (Platform name)\<rparr>) []) =
     Inr (Platform ''CUDA'', Some [(''CudaPrecision'', ''mixed'')]) \<and>
   fst (workflow sample_world []) = Inr nb \<and>
   map_sum id without_platform
     (fst (workflow (sample_world\<lparr>getPlatformByName := \<lambda>name. Inr (Platform name)\<rparr>) [])) =
   Inr (without_platform nb) \<and>
   sim_platform (nb_simulationNPT nb) = None \<and>
   sim_platformProperties (nb_simulationNPT nb) = None \<and>
   sim_platform (nb_simulationProd nb) = None \<and>
   sim_platformProperties (nb_simulationProd nb) = None"
proof -
  from sample_workflow obtain nb l where "workflow sample_world [] = (Inr nb, l)" by blast
  then have wf: "fst (workflow sample_world []) = Inr nb" by simp
  have a: "fst (select_platform sample_world []) = Inr (Platform ''Reference'', None)"
    by (simp add: select_platform_def try_except_OpenMM_def bindX_def call_def returnX_def
          raised_def sample_world_def)
  have b: "fst (select_platform (sample_world\<lparr>getPlatformByName := \<lambda>name. Inr (Platform name)\<rparr>) []) =
     Inr (Platform ''CUDA'', Some [(''CudaPrecision'', ''mixed'')])"
    by (simp add: select_platform_def try_except_OpenMM_def bindX_def call_def returnX_def
          raised_def)
  from platform_selection_unused [OF a b] a b wf show ?thesis by simp
qed

text \<open>
  C6. Both radial distribution functions are computed with \<^verbatim>\<open>exclude_same="residue"\<close>:
  in every frame, every pair that enters either histogram joins atoms of different
  residues, and the results do not depend on the distance of any pair of atoms in the
  same residue (same water molecule).
\<close>

theorem same_residue_pairs_excluded:
  assumes an: "cell_analysis w u l0 = (Inr (results_OO, results_OH), l1)"
  shows "\<exists>oxygen_atoms hydrogen_atoms rdf_OO rdf_OH.
           InterRDF_init oxygen_atoms oxygen_atoms rdf_kwargs = Inr rdf_OO \<and>
           InterRDF_init oxygen_atoms hydrogen_atoms rdf_kwargs = Inr rdf_OH \<and>
           results_OO = run_rdf w u rdf_OO \<and> results_OH = run_rdf w u rdf_OH \<and>
           rdf_exclude_same rdf_OO = Some Residue \<and> rdf_exclude_same rdf_OH = Some Residue \<and>
           (\<forall>frame \<in> set (u_trajectory u).
              (\<forall>(i, j) \<in> set (contributing_pairs w rdf_OO (u_atoms u) frame).
                 resindex (u_atoms u ! i) \<noteq> resindex (u_atoms u ! j)) \<and>
              (\<forall>(i, j) \<in> set (contributing_pairs w rdf_OH (u_atoms u) frame).
                 resindex (u_atoms u ! i) \<noteq> resindex (u_atoms u ! j))) \<and>
           (\<forall>d'. (\<forall>frame \<in> set (u_trajectory u). \<forall>i j.
                    resindex (u_atoms u ! i) \<noteq> resindex (u_atoms u ! j) \<longrightarrow>
                    d' (snd frame) (fst frame ! i) (fst frame ! j) =
                    pairDistance w (snd frame) (fst frame ! i) (fst frame ! j)) \<longrightarrow>
                 run_rdf (w\<lparr>pairDistance := d'\<rparr>) u rdf_OO = results_OO \<and>
                 run_rdf (w\<lparr>pairDistance := d'\<rparr>) u rdf_OH = results_OH)"
proof -
  from an obtain oxygen_atoms hydrogen_atoms where
    oo: "results_OO = run_rdf w u \<lparr>rdf_g1 = oxygen_atoms, rdf_g2 = oxygen_atoms,
            rdf_range = (0, 10), rdf_nbins = 75, rdf_exclude_same = Some Residue\<rparr>"
    and oh: "results_OH = run_rdf w u \<lparr>rdf_g1 = oxygen_atoms, rdf_g2 = hydrogen_atoms,
            rdf_range = (0, 10), rdf_nbins = 75, rdf_exclude_same = Some Residue\<rparr>"
    by (rule cell_analysis_Inr)
  let ?OO = "\<lparr>rdf_g1 = oxygen_atoms, rdf_g2 = oxygen_atoms,
            rdf_range = (0, 10), rdf_nbins = 75, rdf_exclude_same = Some Residue\<rparr>"
  let ?OH = "\<lparr>rdf_g1 = oxygen_atoms, rdf_g2 = hydrogen_atoms,
            rdf_range = (0, 10), rdf_nbins = 75, rdf_exclude_same = Some Residue\<rparr>"
  have ex: "rdf_exclude_same ?OO = Some Residue" "rdf_exclude_same ?OH = Some Residue"
    by simp_all
  have pairs: "\<forall>frame \<in> set (u_trajectory u).
              (\<forall>(i, j) \<in> set (contributing_pairs w ?OO (u_atoms u) frame).
                 resindex (u_atoms u ! i) \<noteq> resindex (u_atoms u ! j)) \<and>
              (\<forall>(i, j) \<in> set (contributing_pairs w ?OH (u_atoms u) frame).
                 resindex (u_atoms u ! i) \<noteq> resindex (u_atoms u ! j))"
    using contributing_pairs_residues [OF ex(1)] contributing_pairs_residues [OF ex(2)]
    by blast
  have ins: "\<forall>d'. (\<forall>frame \<in> set (u_trajectory u). \<forall>i j.
                    resindex (u_atoms u ! i) \<noteq> resindex (u_atoms u ! j) \<longrightarrow>
                    d' (snd frame) (fst frame ! i) (fst frame ! j) =
                    pairDistance w (snd frame) (fst frame ! i) (fst frame ! j)) \<longrightarrow>
                 run_rdf (w\<lparr>pairDistance := d'\<rparr>) u ?OO = results_OO \<and>
                 run_rdf (w\<lparr>pairDistance := d'\<rparr>) u ?OH = results_OH"
    unfolding oo oh
    using run_rdf_insensitive [OF ex(1), of u _ w] run_rdf_insensitive [OF ex(2), of u _ w]
    by blast
  show ?thesis
    apply (rule exI [of _ oxygen_atoms], rule exI [of _ hydrogen_atoms])
    apply (rule exI [of _ ?OO], rule exI [of _ ?OH])
    using oo oh pairs ins by (simp add: InterRDF_init_notebook)
qed

theorem same_residue_pairs_excluded_witness:
  "\<exists>results_OO results_OH l1 rdf_OO rdf_OH.
     cell_analysis sample_world sample_universe [] = (Inr (results_OO, results_OH), l1) \<and>
     results_OO = run_rdf sample_world sample_universe rdf_OO \<and>
     results_OH = run_rdf sample_world sample_universe rdf_OH \<and>
     rdf_exclude_same rdf_OO = Some Residue \<and> rdf_exclude_same rdf_OH = Some Residue \<and>
     (\<forall>frame \<in> set (u_trajectory sample_universe).
        (\<forall>(i, j) \<in> set (contributing_pairs sample_world rdf_OO (u_atoms sample_universe) frame).
           resindex (u_atoms sample_universe ! i) \<noteq> resindex (u_atoms sample_universe ! j)) \<and>
        (\<forall>(i, j) \<in> set (contributing_pairs sample_world rdf_OH (u_atoms sample_universe) frame).
           resindex (u_atoms sample_universe ! i) \<noteq> resindex (u_atoms sample_universe ! j)))"
proof -
  from same_residue_pairs_excluded [OF sample_analysis] sample_analysis
  show ?thesis by blast
qed

text \<open>
  C5 (what the code does). The notebook passes \<^verbatim>\<open>bins=100\<close>, but the keyword of
  \<^verbatim>\<open>InterRDF\<close> for the bin count is \<^verbatim>\<open>nbins\<close>; \<^verbatim>\<open>bins\<close> is swallowed by
  \<^verbatim>\<open>**kwargs\<close> and the default of 75 bins stands. On the sample universe both results
  have 75 distance bins and 75 values of g(r), not 100.
\<close>

theorem rdf_has_75_bins:
  "\<exists>results_OO results_OH l1.
     cell_analysis sample_world sample_universe [] = (Inr (results_OO, results_OH), l1) \<and>
     length (res_bins results_OO) = 75 \<and> length (res_rdf results_OO) = 75 \<and>
     length (res_bins results_OH) = 75 \<and> length (res_rdf results_OH) = 75"
  using sample_analysis by (simp add: run_rdf_lengths)

text \<open>
  C3 (what the code does). In the sample world, where looking up CUDA raises an
  \<^verbatim>\<open>OpenMMException\<close>, the selection falls back to the Reference platform and leaves
  \<^verbatim>\<open>properties\<close> unbound; the run then completes, and neither simulation was given a
  platform: the contexts are created on the engine's default platform, not on the
  platform the fallback chose.
\<close>

theorem fallback_platform_unused:
  "select_platform sample_world [] =
     (Inr (Platform ''Reference'', None),
      [Call Setup 45 ''mm.Platform.getPlatformByName(CUDA)''
         (Some (OpenMMException ''no such platform'')),
       Call Setup 48 ''mm.Platform.getPlatformByName(Reference)'' None]) \<and>
   (\<exists>nb l. workflow sample_world [] = (Inr nb, l) \<and>
      nb_platform nb = Platform ''Reference'' \<and> nb_properties nb = None \<and>
      sim_platform (nb_simulationNPT nb) = None \<and> sim_platform (nb_simulationProd nb) = None)"
proof -
  have "select_platform sample_world [] =
     (Inr (Platform ''Reference'', None),
      [Call Setup 45 ''mm.Platform.getPlatformByName(CUDA)''
         (Some (OpenMMException ''no such platform'')),
       Call Setup 48 ''mm.Platform.getPlatformByName(Reference)'' None])"
    by (simp add: select_platform_def try_except_OpenMM_def bindX_def call_def returnX_def
          raised_def sample_world_def)
  with sample_workflow show ?thesis by blast
qed

text \<open>
  C7 (what the code does). A completed run of the sample world makes the calls below,
  in this order. The stages follow one another: set-up, equilibration, production,
  analysis, plotting. There is one equilibration stage, the NPT run of line 75 (after a
  minimisation), and the next stepping call is the production run of line 107; no second
  (NVT) equilibration stage is run.
\<close>

theorem one_equilibration_stage:
  "\<exists>nb l. workflow sample_world [] = (Inr nb, l) \<and>
     map (\<lambda>ev. (ev_stage ev, ev_line ev)) l =
       [(Setup, 40), (Setup, 41), (Setup, 45), (Setup, 48), (Setup, 58),
        (Equilibration, 67), (Equilibration, 68), (Equilibration, 71), (Equilibration, 73),
        (Equilibration, 74), (Equilibration, 75), (Equilibration, 79), (Equilibration, 80),
        (Equilibration, 81), (Equilibration, 82),
        (Production, 93), (Production, 96), (Production, 97), (Production, 100),
        (Production, 103), (Production, 104), (Production, 107),
        (Analysis, 143), (Analysis, 145), (Analysis, 148), (Analysis, 151), (Analysis, 154),
        (Analysis, 176), (Analysis, 177), (Analysis, 180), (Analysis, 181), (Analysis, 184),
        (Analysis, 185),
        (Plotting, 197), (Plotting, 200), (Plotting, 201), (Plotting, 202), (Plotting, 203),
        (Plotting, 204), (Plotting, 205), (Plotting, 208), (Plotting, 209), (Plotting, 210),
        (Plotting, 211), (Plotting, 212), (Plotting, 213), (Plotting, 215)] \<and>
     remdups_adj (map ev_stage l) = [Setup, Equilibration, Production, Analysis, Plotting] \<and>
     map (\<lambda>ev. (ev_stage ev, ev_line ev))
       (filter (\<lambda>ev. ev_src ev = ''simulationNPT.step(50000)'' \<or>
                      ev_src ev = ''simulationProd.step(500000)'') l) =
       [(Equilibration, 75), (Production, 107)]"
  using sample_workflow
  by (auto simp: load_log_def equilibrate_log_def production_log_def analysis_log_def plot_log_def)

end
